theory Spec2Isabelle
  imports Complex_Main "HOL-Library.Word" "HOL-Library.Sublist"
begin

unbundle bit_operations_syntax

section \<open>JavaScript values\<close>

text \<open>
  A JavaScript string is a sequence of UTF-16 code units; \<open>charCodeAt\<close> reads one of
  them as a number in \<open>0..65535\<close>. \<open>js\<close> writes an ASCII literal of the source.
\<close>

type_synonym js_string = "16 word list"

definition js :: "string \<Rightarrow> js_string" where
  "js s = map (\<lambda>c. of_nat (of_char c)) s"

text \<open>
  Numbers outside the integer hash are IEEE doubles, and \<open>Math.sin\<close>, \<open>Math.cos\<close>
  and \<open>Math.acos\<close> are implementation-approximated. The embedding does not fix them:
  every function that computes with doubles takes the arithmetic of the engine as a
  record \<open>M\<close> of operations on a type \<open>'f\<close> of numbers, and every theorem holds for all
  such records. \<open>num q\<close> is the double that a decimal or integer literal \<open>q\<close> denotes,
  \<open>Math_random n\<close> the value of the \<open>n\<close>-th call of \<open>Math.random()\<close> and
  \<open>performance_now n\<close> the value of the \<open>n\<close>-th call of \<open>performance.now()\<close> in the
  run of the page. The one exception is the quotient of two integers in
  \<open>getProgressToNextTier\<close>, which is computed as IEEE 754 prescribes (see
  \<open>double_div\<close>).
\<close>

record 'f engine =
  num :: "rat \<Rightarrow> 'f"
  NaN :: "'f"
  num_add :: "'f \<Rightarrow> 'f \<Rightarrow> 'f"
  num_sub :: "'f \<Rightarrow> 'f \<Rightarrow> 'f"
  num_mul :: "'f \<Rightarrow> 'f \<Rightarrow> 'f"
  num_div :: "'f \<Rightarrow> 'f \<Rightarrow> 'f"
  num_rem :: "'f \<Rightarrow> 'f \<Rightarrow> 'f"
  num_neg :: "'f \<Rightarrow> 'f"
  num_lt :: "'f \<Rightarrow> 'f \<Rightarrow> bool"
  falsy :: "'f \<Rightarrow> bool"
  Math_PI :: "'f"
  Math_sin :: "'f \<Rightarrow> 'f"
  Math_cos :: "'f \<Rightarrow> 'f"
  Math_acos :: "'f \<Rightarrow> 'f"
  Math_sqrt :: "'f \<Rightarrow> 'f"
  Math_floor :: "'f \<Rightarrow> 'f"
  Math_min :: "'f \<Rightarrow> 'f \<Rightarrow> 'f"
  Math_random :: "nat \<Rightarrow> 'f"
  performance_now :: "nat \<Rightarrow> 'f"

datatype 'f vec3 = Vec3 'f 'f 'f

section \<open>hash.js: hash code, seeded generator, placement\<close>

subsection \<open>\<open>hashCode\<close>\<close>

text \<open>
  The 32-bit operators of JavaScript: \<open>ToInt32\<close> reduces an integer modulo \<open>2^32\<close> into
  \<open>[-2^31, 2^31)\<close>; \<open>a << k\<close> and \<open>a & b\<close> apply it to their operands and to their
  result. Between them \<open>hashCode\<close> subtracts and adds as doubles, which is exact: the
  operands are 32-bit integers and a code unit.
\<close>

definition ToInt32 :: "int \<Rightarrow> int" where
  "ToInt32 n = sint (word_of_int n :: 32 word)"

definition shl :: "int \<Rightarrow> nat \<Rightarrow> int" where
  "shl a k = sint (push_bit (k mod 32) (word_of_int a :: 32 word))"

definition bitand :: "int \<Rightarrow> int \<Rightarrow> int" where
  "bitand a b = sint ((word_of_int a :: 32 word) AND (word_of_int b :: 32 word))"

text \<open>The body of the \<open>for\<close> loop, once for each code unit from left to right.\<close>

fun hashCode_loop :: "js_string \<Rightarrow> int \<Rightarrow> int" where
  "hashCode_loop [] hash = hash"
| "hashCode_loop (c # cs) hash =
     hashCode_loop cs
       (let char = uint c;
            hash1 = (shl hash 5 - hash) + char
        in bitand hash1 hash1)"

definition hashCode :: "js_string \<Rightarrow> int" where
  "hashCode str = \<bar>hashCode_loop str 0\<bar>"

subsection \<open>\<open>seededRandom\<close>\<close>

text \<open>
  \<open>seededRandom(seed)\<close> returns a closure over a variable \<open>s\<close> of its own, which each
  call of the closure reads and overwrites. The captured variables live in a store of
  cells, one per call of \<open>seededRandom\<close>: the closure is the address of its cell, and the
  store holds whatever earlier calls have left there.
\<close>

type_synonym 'f cells = "'f list"

definition seededRandom :: "'f \<Rightarrow> 'f cells \<Rightarrow> nat \<times> 'f cells" where
  "seededRandom seed h = (length h, h @ [seed])"

definition call_rand :: "('f, 'e) engine_scheme \<Rightarrow> nat \<Rightarrow> 'f cells \<Rightarrow> 'f \<times> 'f cells" where
  "call_rand M rand h =
     (let s = num_mul M (Math_sin M (num_mul M (h ! rand) (num M 9999))) (num M 10000)
      in (num_sub M s (Math_floor M s), h[rand := s]))"

subsection \<open>\<open>getMessagePlacement\<close>\<close>

definition TREE_PARTS :: "js_string list" where
  "TREE_PARTS = [js ''trunk'', js ''branch'', js ''leaf'', js ''root'']"

definition DEFAULT_TREE_PART :: js_string where
  "DEFAULT_TREE_PART = js ''trunk''"

text \<open>
  \<open>a % b\<close> on integers takes the sign of the dividend; reading an array outside its
  bounds gives \<open>undefined\<close>, here \<open>None\<close>.
\<close>

definition int_rem :: "int \<Rightarrow> int \<Rightarrow> int" where
  "int_rem a b = sgn a * (\<bar>a\<bar> mod \<bar>b\<bar>)"

definition array_get :: "'a list \<Rightarrow> int \<Rightarrow> 'a option" where
  "array_get xs i = (if 0 \<le> i \<and> i < int (length xs) then Some (xs ! nat i) else None)"

record 'f placement =
  treePart :: "js_string option"
  position :: "'f vec3"
  glowIntensity :: "'f"

definition getPositionForTreePart ::
  "('f, 'e) engine_scheme \<Rightarrow> js_string option \<Rightarrow> nat \<Rightarrow> int \<Rightarrow> 'f cells \<Rightarrow> 'f vec3 \<times> 'f cells" where
  "getPositionForTreePart M part rand seed h =
     (if part = Some (js ''trunk'') then
        (let angle = num_rem M (num_mul M (num M (of_int seed)) (num M 0.618))
                       (num_mul M (Math_PI M) (num M 2));
             (r1, h1) = call_rand M rand h;
             height = num_add M (num M 1) (num_mul M r1 (num M 6));
             radius = num_add M (num M 1.2)
                        (num_mul M (num_div M height (num M 8)) (num_neg M (num M 0.3)))
         in (Vec3 (num_mul M (Math_cos M angle) radius)
                  height
                  (num_mul M (Math_sin M angle) radius), h1))
      else if part = Some (js ''branch'') then
        (let branchAngle = num_rem M (num_mul M (num M (of_int seed)) (num M 0.718))
                             (num_mul M (Math_PI M) (num M 2));
             (r1, h1) = call_rand M rand h;
             branchLength = num_add M (num M 1) (num_mul M r1 (num M 3));
             (r2, h2) = call_rand M rand h1;
             height = num_add M (num M 5) (num_mul M r2 (num M 3))
         in (Vec3 (num_mul M (Math_cos M branchAngle) branchLength)
                  height
                  (num_mul M (Math_sin M branchAngle) branchLength), h2))
      else if part = Some (js ''leaf'') then
        (let theta = num_rem M (num_mul M (num M (of_int seed)) (num M 0.618))
                       (num_mul M (Math_PI M) (num M 2));
             (r1, h1) = call_rand M rand h;
             phi = Math_acos M (num_sub M (num M 1) (num_mul M (num M 2) r1));
             (r2, h2) = call_rand M rand h1;
             canopyRadius = num_add M (num M 4) (num_mul M r2 (num M 2))
         in (Vec3 (num_mul M (num_mul M canopyRadius (Math_sin M phi)) (Math_cos M theta))
                  (num_add M (num M 8)
                     (num_mul M (num_mul M canopyRadius (Math_cos M phi)) (num M 0.6)))
                  (num_mul M (num_mul M canopyRadius (Math_sin M phi)) (Math_sin M theta)), h2))
      else if part = Some (js ''root'') then
        (let rootAngle = num_rem M (num_mul M (num M (of_int seed)) (num M 0.818))
                           (num_mul M (Math_PI M) (num M 2));
             (r1, h1) = call_rand M rand h;
             rootLength = num_add M (num M 2) (num_mul M r1 (num M 2));
             (r2, h2) = call_rand M rand h1
         in (Vec3 (num_mul M (Math_cos M rootAngle) rootLength)
                  (num_add M (num_neg M (num M 0.1)) (num_mul M r2 (num M 0.5)))
                  (num_mul M (Math_sin M rootAngle) rootLength), h2))
      else (Vec3 (num M 0) (num M 5) (num M 0), h))"

definition getMessagePlacement ::
  "('f, 'e) engine_scheme \<Rightarrow> js_string \<Rightarrow> js_string \<Rightarrow> 'f cells \<Rightarrow> 'f placement \<times> 'f cells" where
  "getMessagePlacement M userName messageId h =
     (let seed = hashCode (userName @ messageId);
          (rand, h0) = seededRandom (num M (of_int seed)) h;
          partIndex = int_rem seed (int (length TREE_PARTS));
          part = array_get TREE_PARTS partIndex;
          (pos, h1) = getPositionForTreePart M part rand seed h0;
          (r, h2) = call_rand M rand h1;
          glow = num_add M (num M 0.5) (num_mul M r (num M 0.5))
      in (\<lparr>treePart = part, position = pos, glowIntensity = glow\<rparr>, h2))"

text \<open>The deprecated wrapper of the same file.\<close>

definition getNodePosition ::
  "('f, 'e) engine_scheme \<Rightarrow> js_string \<Rightarrow> js_string \<Rightarrow> 'f cells \<Rightarrow> 'f vec3 \<times> 'f cells" where
  "getNodePosition M userName messageId h =
     (let (p, h1) = getMessagePlacement M userName messageId h in (position p, h1))"

section \<open>storage.js: the message store\<close>

subsection \<open>Messages and the storage area\<close>

text \<open>
  The message object that the composer builds and the node systems read. The inscription
  variant writes \<open>treePart\<close>, \<open>position\<close> and \<open>glowIntensity\<close>, the emotion variant
  \<open>emotion\<close> and \<open>node_position\<close>; a field that an object lacks reads as
  \<open>undefined\<close>, here \<open>None\<close>.
\<close>

record 'f message =
  message_id :: js_string
  userName :: js_string
  message :: js_string
  timestamp :: js_string
  treePart :: "js_string option"
  position :: "'f vec3 option"
  glowIntensity :: "'f option"
  emotion :: "js_string option"
  node_position :: "'f vec3 option"

datatype error = SecurityError | SyntaxError | QuotaExceededError | TypeError

text \<open>
  The values of \<open>JSON.parse\<close> that the store tells apart: \<open>null\<close>; a value that has
  none of \<open>length\<close>, \<open>push\<close>, \<open>find\<close> and \<open>filter\<close> (the object \<open>{}\<close>, a number, a
  boolean), named after \<open>{}\<close>; and an array, whose entries are message objects or
  \<open>null\<close>. Strings, objects that carry a \<open>length\<close> of their own and array entries of
  other shapes are left out. The text under \<open>STORAGE_KEY\<close> is the empty string, a text
  that \<open>JSON.parse\<close> rejects, or the JSON text of such a value, which \<open>JSON.parse\<close>
  reads back (the numbers of a message being finite). The storage area may refuse every
  access (\<open>denied\<close>: the browser blocks storage for the page), and it admits a new value
  only within its quota (\<open>accepts\<close>).
\<close>

datatype 'f entry = Message "'f message" | Null_entry

datatype 'f json = Null | EmptyObject | Array "'f entry list"

datatype 'f stored = EmptyString | Malformed | Json "'f json"

record 'f localStorage =
  item :: "'f stored option"
  denied :: bool
  accepts :: "'f stored \<Rightarrow> bool"

definition getItem :: "'f localStorage \<Rightarrow> error + 'f stored option" where
  "getItem ls = (if denied ls then Inl SecurityError else Inr (item ls))"

definition setItem :: "'f localStorage \<Rightarrow> 'f stored \<Rightarrow> error + 'f localStorage" where
  "setItem ls v =
     (if denied ls then Inl SecurityError
      else if accepts ls v then Inr (ls\<lparr>item := Some v\<rparr>)
      else Inl QuotaExceededError)"

definition removeItem :: "'f localStorage \<Rightarrow> error + 'f localStorage" where
  "removeItem ls = (if denied ls then Inl SecurityError else Inr (ls\<lparr>item := None\<rparr>))"

definition JSON_parse :: "'f stored \<Rightarrow> error + 'f json" where
  "JSON_parse d = (case d of Json v \<Rightarrow> Inr v | _ \<Rightarrow> Inl SyntaxError)"

definition JSON_stringify :: "'f json \<Rightarrow> 'f stored" where
  "JSON_stringify v = Json v"

text \<open>
  The array methods that the store calls. Calling one on \<open>null\<close> or on an object that
  lacks it throws a \<open>TypeError\<close>. The callbacks of \<open>find\<close> and \<open>filter\<close> read a property
  of the entry first, which throws on a \<open>null\<close> entry; \<open>P\<close> is what the callback answers
  for a message. Entries are visited from left to right, and \<open>find\<close> stops at the first
  match.
\<close>

definition push :: "'f json \<Rightarrow> 'f entry \<Rightarrow> error + 'f json" where
  "push v x = (case v of Array es \<Rightarrow> Inr (Array (es @ [x])) | _ \<Rightarrow> Inl TypeError)"

fun find_entry :: "('f message \<Rightarrow> bool) \<Rightarrow> 'f entry list \<Rightarrow> error + 'f message option" where
  "find_entry P [] = Inr None"
| "find_entry P (Null_entry # es) = Inl TypeError"
| "find_entry P (Message m # es) = (if P m then Inr (Some m) else find_entry P es)"

fun filter_entries :: "('f message \<Rightarrow> bool) \<Rightarrow> 'f entry list \<Rightarrow> error + 'f message list" where
  "filter_entries P [] = Inr []"
| "filter_entries P (Null_entry # es) = Inl TypeError"
| "filter_entries P (Message m # es) =
     (case filter_entries P es of
        Inl err \<Rightarrow> Inl err
      | Inr ms \<Rightarrow> Inr (if P m then m # ms else ms))"

subsection \<open>The operations\<close>

text \<open>
  \<open>try { ... } catch (error) { return []; }\<close>: a failure of \<open>getItem\<close> or of
  \<open>JSON.parse\<close> ends in the handler; what \<open>JSON.parse\<close> returns is returned as it is.
\<close>

definition getAllMessages :: "'f localStorage \<Rightarrow> 'f json" where
  "getAllMessages ls =
     (case getItem ls of
        Inl e \<Rightarrow> Array []
      | Inr data \<Rightarrow>
          (case data of
             None \<Rightarrow> Array []
           | Some d \<Rightarrow>
               if d = EmptyString then Array []
               else (case JSON_parse d of Inl e \<Rightarrow> Array [] | Inr v \<Rightarrow> v)))"

text \<open>
  \<open>messages.push(message)\<close> changes the array just parsed, not the storage area; only
  \<open>setItem\<close> writes. When \<open>push\<close> or \<open>setItem\<close> throws, the handler returns \<open>false\<close>.
\<close>

definition saveMessage :: "'f message \<Rightarrow> 'f localStorage \<Rightarrow> bool \<times> 'f localStorage" where
  "saveMessage m ls =
     (let messages = getAllMessages ls
      in case push messages (Message m) of
           Inl e \<Rightarrow> (False, ls)
         | Inr messages \<Rightarrow>
             (case setItem ls (JSON_stringify messages) of
                Inl e \<Rightarrow> (False, ls)
              | Inr ls' \<Rightarrow> (True, ls')))"

text \<open>
  \<open>|| null\<close> turns no match into \<open>null\<close>, here \<open>None\<close>. Nothing catches what \<open>find\<close>
  throws.
\<close>

definition getMessageById :: "js_string \<Rightarrow> 'f localStorage \<Rightarrow> error + 'f message option" where
  "getMessageById messageId ls =
     (let messages = getAllMessages ls
      in case messages of
           Array es \<Rightarrow> find_entry (\<lambda>m. message_id m = messageId) es
         | _ \<Rightarrow> Inl TypeError)"

text \<open>
  \<open>.length\<close> of \<open>null\<close> throws; of an object without it, it is \<open>undefined\<close>, here
  \<open>None\<close>.
\<close>

definition getMessageCount :: "'f localStorage \<Rightarrow> error + nat option" where
  "getMessageCount ls =
     (case getAllMessages ls of
        Null \<Rightarrow> Inl TypeError
      | EmptyObject \<Rightarrow> Inr None
      | Array es \<Rightarrow> Inr (Some (length es)))"

definition clearAllMessages :: "'f localStorage \<Rightarrow> error + 'f localStorage" where
  "clearAllMessages ls = removeItem ls"

text \<open>A run of \<open>saveMessage\<close> calls, one per message, with the result of each call.\<close>

fun saveMessages :: "'f message list \<Rightarrow> 'f localStorage \<Rightarrow> bool list \<times> 'f localStorage" where
  "saveMessages [] ls = ([], ls)"
| "saveMessages (m # ms) ls =
     (let (ok, ls1) = saveMessage m ls;
          (oks, ls2) = saveMessages ms ls1
      in (ok # oks, ls2))"

subsection \<open>Dates\<close>

text \<open>
  \<open>new Date(m.timestamp).getFullYear()\<close>. The time value of a date is a number of
  milliseconds since the epoch, or \<open>NaN\<close> (here \<open>None\<close>) when the text is not a date.
  \<open>getFullYear\<close> is \<open>YearFromTime(LocalTime(t))\<close> of ECMA-262, where \<open>YearFromTime(t)\<close> is
  the largest \<open>y\<close> with \<open>TimeFromYear(y) \<le> t\<close>; the search below starts at a year that
  is not after it. What the page's engine contributes, the parser of date texts, the
  offset of local time and the clock, is a parameter.
\<close>

record clock =
  Date_parse :: "js_string \<Rightarrow> int option"
  LocalTZA :: "int \<Rightarrow> int"
  Date_now :: int

definition msPerDay :: int where
  "msPerDay = 86400000"

definition Day :: "int \<Rightarrow> int" where
  "Day t = t div msPerDay"

definition DayFromYear :: "int \<Rightarrow> int" where
  "DayFromYear y =
     365 * (y - 1970) + (y - 1969) div 4 - (y - 1901) div 100 + (y - 1601) div 400"

definition TimeFromYear :: "int \<Rightarrow> int" where
  "TimeFromYear y = msPerDay * DayFromYear y"

text \<open>A year has 365 days, and one more when it is a leap year.\<close>

lemma int_div_succ:
  fixes a k :: int
  assumes "0 < k"
  shows "(a + 1) div k = a div k + (if k dvd a + 1 then 1 else 0)"
proof (cases "k dvd a + 1")
  case True
  then obtain q where q: "a + 1 = k * q"
    by (auto simp: dvd_def)
  then have a: "a = k * (q - 1) + (k - 1)"
    by (simp add: algebra_simps)
  have "(k * (q - 1) + (k - 1)) div k = (q - 1) + (k - 1) div k"
    using assms by simp
  also have "(k - 1) div k = 0"
    using assms by simp
  finally have "a div k = q - 1"
    using a by simp
  moreover have "(a + 1) div k = q"
    using q assms by simp
  ultimately show ?thesis
    using True by simp
next
  case False
  have "a mod k \<noteq> k - 1"
  proof
    assume h: "a mod k = k - 1"
    have "(a + 1) mod k = (a mod k + 1) mod k"
      by (simp add: mod_simps)
    also have "\<dots> = 0"
      using h by simp
    finally show False
      using False by (simp add: dvd_eq_mod_eq_0)
  qed
  moreover have "0 \<le> a mod k" "a mod k < k"
    using assms by simp_all
  ultimately have r: "a mod k + 1 < k" "0 \<le> a mod k + 1"
    by linarith+
  have k1: "1 < k"
    using False assms by (cases "k = 1") auto
  have "(a + 1) div k = a div k + 1 div k + (a mod k + 1 mod k) div k"
    by (rule div_add1_eq)
  moreover have "1 div k = 0" "1 mod k = 1"
    using k1 by simp_all
  moreover have "(a mod k + 1) div k = 0"
    using r by simp
  ultimately show ?thesis
    using False by simp
qed

lemma DayFromYear_Suc:
  "DayFromYear (y + 1) =
     DayFromYear y + 365 + (if 4 dvd y then 1 else 0) - (if 100 dvd y then 1 else 0)
       + (if 400 dvd y then 1 else 0)"
proof -
  have shift: "k dvd z - c \<longleftrightarrow> k dvd z" if "k dvd c" for k z c :: int
    using that by (rule dvd_diff_left_iff)
  have "(4::int) dvd y - 1969 + 1 \<longleftrightarrow> 4 dvd y"
    using shift [of 4 1968 y] by simp
  with int_div_succ [of 4 "y - 1969"]
  have a: "(y + 1 - 1969) div 4 = (y - 1969) div 4 + (if 4 dvd y then 1 else 0)"
    by (simp add: algebra_simps)
  have "(100::int) dvd y - 1901 + 1 \<longleftrightarrow> 100 dvd y"
    using shift [of 100 1900 y] by simp
  with int_div_succ [of 100 "y - 1901"]
  have b: "(y + 1 - 1901) div 100 = (y - 1901) div 100 + (if 100 dvd y then 1 else 0)"
    by (simp add: algebra_simps)
  have "(400::int) dvd y - 1601 + 1 \<longleftrightarrow> 400 dvd y"
    using shift [of 400 1600 y] by simp
  with int_div_succ [of 400 "y - 1601"]
  have c: "(y + 1 - 1601) div 400 = (y - 1601) div 400 + (if 400 dvd y then 1 else 0)"
    by (simp add: algebra_simps)
  show ?thesis
    unfolding DayFromYear_def a b c by simp
qed

lemma DayFromYear_lower: "DayFromYear y + 365 \<le> DayFromYear (y + 1)"
proof -
  have "4 dvd y" if "100 dvd y"
    using that by (rule dvd_trans [rotated]) simp
  then show ?thesis
    by (simp add: DayFromYear_Suc)
qed

lemma DayFromYear_upper: "DayFromYear (y + 1) \<le> DayFromYear y + 366"
proof -
  have "100 dvd y" if "400 dvd y"
    using that by (rule dvd_trans [rotated]) simp
  then show ?thesis
    by (simp add: DayFromYear_Suc)
qed

function year_search :: "int \<Rightarrow> int \<Rightarrow> int" where
  "year_search d y = (if DayFromYear (y + 1) \<le> d then year_search d (y + 1) else y)"
  by pat_completeness auto
termination
proof (relation "measure (\<lambda>(d, y). nat (d - DayFromYear y))")
  show "wf (measure (\<lambda>(d, y). nat (d - DayFromYear y)))"
    by simp
next
  fix d y :: int
  assume "DayFromYear (y + 1) \<le> d"
  then show "((d, y + 1), (d, y)) \<in> measure (\<lambda>(d, y). nat (d - DayFromYear y))"
    using DayFromYear_lower [of y] by simp
qed

declare year_search.simps [simp del]

definition YearFromTime :: "int \<Rightarrow> int" where
  "YearFromTime t =
     (let d = Day t
      in year_search d (if 0 \<le> d then 1970 + d div 366 else 1970 + d div 365))"

definition LocalTime :: "('c) clock_scheme \<Rightarrow> int \<Rightarrow> int" where
  "LocalTime C t = t + LocalTZA C t"

definition getFullYear :: "('c) clock_scheme \<Rightarrow> int option \<Rightarrow> int option" where
  "getFullYear C tv = (case tv of None \<Rightarrow> None | Some t \<Rightarrow> Some (YearFromTime (LocalTime C t)))"

text \<open>
  The default of the parameter is the year of the clock; \<open>===\<close> with \<open>NaN\<close> is false.
\<close>

definition getMessagesForYear ::
  "('c) clock_scheme \<Rightarrow> int option \<Rightarrow> 'f localStorage \<Rightarrow> error + 'f message list" where
  "getMessagesForYear C yearArg ls =
     (let year = (case yearArg of
                    None \<Rightarrow> getFullYear C (Some (Date_now C))
                  | Some y \<Rightarrow> Some y);
          messages = getAllMessages ls
      in case messages of
           Array es \<Rightarrow>
             filter_entries (\<lambda>m.
               let msgYear = getFullYear C (Date_parse C (timestamp m))
               in msgYear \<noteq> None \<and> msgYear = year) es
         | _ \<Rightarrow> Inl TypeError)"

subsection \<open>\<open>calculateTier\<close>\<close>

record tier_result =
  tier :: js_string
  color :: js_string
  emoji :: js_string

definition calculateTier :: "int \<Rightarrow> tier_result" where
  "calculateTier count =
     (if count \<ge> 100000000 then
        \<lparr>tier_result.tier = js ''White'', tier_result.color = js ''#FFFFFF'',
         tier_result.emoji = [0xD83C, 0xDF4F]\<rparr>
      else if count \<ge> 10000000 then
        \<lparr>tier_result.tier = js ''Runic'', tier_result.color = js ''#9B59B6'',
         tier_result.emoji = [0xD83D, 0xDD2E]\<rparr>
      else if count \<ge> 1000000 then
        \<lparr>tier_result.tier = js ''Gold'', tier_result.color = js ''#FFD700'',
         tier_result.emoji = [0xD83C, 0xDF1F]\<rparr>
      else if count \<ge> 100000 then
        \<lparr>tier_result.tier = js ''Silver'', tier_result.color = js ''#C0C0C0'',
         tier_result.emoji = [0x26AA]\<rparr>
      else
        \<lparr>tier_result.tier = js ''Red'', tier_result.color = js ''#FF6B6B'',
         tier_result.emoji = [0xD83C, 0xDF4E]\<rparr>)"

section \<open>Yearfruit.js: the tier table and the progress to the next tier\<close>

record tier_info =
  tier :: js_string
  threshold :: int
  emoji :: js_string

definition getTierInfo :: "tier_info list" where
  "getTierInfo =
     [\<lparr>tier_info.tier = js ''Red'', tier_info.threshold = 0, tier_info.emoji = [0xD83C, 0xDF4E]\<rparr>,
      \<lparr>tier_info.tier = js ''Silver'', tier_info.threshold = 100000, tier_info.emoji = [0x26AA]\<rparr>,
      \<lparr>tier_info.tier = js ''Gold'', tier_info.threshold = 1000000, tier_info.emoji = [0xD83C, 0xDF1F]\<rparr>,
      \<lparr>tier_info.tier = js ''Runic'', tier_info.threshold = 10000000, tier_info.emoji = [0xD83D, 0xDD2E]\<rparr>,
      \<lparr>tier_info.tier = js ''White'', tier_info.threshold = 100000000, tier_info.emoji = [0xD83C, 0xDF4F]\<rparr>]"

record progress_result =
  currentTier :: js_string
  nextTier :: "js_string option"
  progress :: rat
  remaining :: int

subsection \<open>The division of doubles\<close>

text \<open>
  \<open>(count - current) / (next - current)\<close> divides two doubles. Both are integers below
  \<open>2^53\<close>, so they are the integers themselves, and IEEE 754 fixes the result: the
  quotient rounded to the nearest number with a significand of 53 bits, ties to the even
  significand. \<open>double_div a b\<close> is the value of that double, a rational; with operands
  of this size the quotient neither overflows nor is subnormal. The divisor is not zero.

  \<open>round_half_even n d\<close> is \<open>n / d\<close> rounded to the nearest integer, ties to even, for
  \<open>d > 0\<close>. For \<open>0 < a < b\<close>, \<open>binade_below a b 0\<close> is the \<open>k\<close> with
  \<open>2^-k \<le> a / b < 2^-(k-1)\<close>; for \<open>0 < b \<le> a\<close>, \<open>binade_above a b 0\<close> is the \<open>k\<close>
  with \<open>2^k \<le> a / b < 2^(k+1)\<close>.
\<close>

definition round_half_even :: "int \<Rightarrow> int \<Rightarrow> int" where
  "round_half_even n d =
     (let q = n div d; r = n mod d
      in if 2 * r < d then q
         else if d < 2 * r then q + 1
         else if even q then q else q + 1)"

function binade_below :: "int \<Rightarrow> int \<Rightarrow> nat \<Rightarrow> nat" where
  "binade_below a b k = (if a \<le> 0 \<or> b \<le> a * 2 ^ k then k else binade_below a b (Suc k))"
  by pat_completeness auto
termination
proof (relation "measure (\<lambda>(a, b, k). nat (b - a * 2 ^ k))")
  show "wf (measure (\<lambda>(a, b, k). nat (b - a * 2 ^ k)))"
    by simp
next
  fix a b :: int and k :: nat
  assume "\<not> (a \<le> 0 \<or> b \<le> a * 2 ^ k)"
  then have "0 < a" "a * 2 ^ k < b"
    by simp_all
  moreover from \<open>0 < a\<close> have "a * 2 ^ k < a * 2 ^ Suc k"
    by simp
  ultimately show "((a, b, Suc k), (a, b, k)) \<in> measure (\<lambda>(a, b, k). nat (b - a * 2 ^ k))"
    by simp
qed

declare binade_below.simps [simp del]

function binade_above :: "int \<Rightarrow> int \<Rightarrow> nat \<Rightarrow> nat" where
  "binade_above a b k = (if b \<le> 0 \<or> a < b * 2 ^ Suc k then k else binade_above a b (Suc k))"
  by pat_completeness auto
termination
proof (relation "measure (\<lambda>(a, b, k). nat (a - b * 2 ^ k))")
  show "wf (measure (\<lambda>(a, b, k). nat (a - b * 2 ^ k)))"
    by simp
next
  fix a b :: int and k :: nat
  assume "\<not> (b \<le> 0 \<or> a < b * 2 ^ Suc k)"
  then have b: "0 < b" and le: "b * 2 ^ Suc k \<le> a"
    by simp_all
  have "nat (a - b * 2 ^ Suc k) < nat (a - b * 2 ^ k)"
  proof -
    have "b * 2 ^ Suc k = 2 * (b * 2 ^ k)"
      by simp
    moreover have "0 < b * 2 ^ k"
      using b by simp
    ultimately show ?thesis
      using le by linarith
  qed
  then show "((a, b, Suc k), (a, b, k)) \<in> measure (\<lambda>(a, b, k). nat (a - b * 2 ^ k))"
    by simp
qed

declare binade_above.simps [simp del]

definition double_div_pos :: "int \<Rightarrow> int \<Rightarrow> rat" where
  "double_div_pos a b =
     (if a < b then
        (let k = binade_below a b 0;
             m = round_half_even (a * 2 ^ (52 + k)) b
         in of_int m / 2 ^ (52 + k))
      else
        (let k = binade_above a b 0;
             m = round_half_even (a * 2 ^ (52 - k)) b
         in of_int m * 2 ^ k / 2 ^ 52))"

definition double_div :: "int \<Rightarrow> int \<Rightarrow> rat" where
  "double_div a b =
     (if a = 0 then 0 else of_int (sgn a * sgn b) * double_div_pos \<bar>a\<bar> \<bar>b\<bar>)"

subsection \<open>\<open>getProgressToNextTier\<close>\<close>

text \<open>
  The \<open>for\<close> loop of \<open>getProgressToNextTier\<close> from index \<open>i\<close> on, and after it the
  result for the last tier. The count is an integer or \<open>undefined\<close> (\<open>None\<close>), and
  \<open>undefined < threshold\<close> is false, so that the loop goes on. \<open>progress\<close> holds the
  value of the double.
\<close>

function progress_loop :: "int option \<Rightarrow> nat \<Rightarrow> progress_result" where
  "progress_loop count i =
     (let tiers = getTierInfo
      in if i < length tiers - 1 then
           (case count of
              None \<Rightarrow> progress_loop count (i + 1)
            | Some c \<Rightarrow>
                if c < tier_info.threshold (tiers ! (i + 1)) then
                  (let current = tier_info.threshold (tiers ! i);
                       next = tier_info.threshold (tiers ! (i + 1));
                       progress = double_div (c - current) (next - current)
                   in \<lparr>currentTier = tier_info.tier (tiers ! i),
                       nextTier = Some (tier_info.tier (tiers ! (i + 1))),
                       progress = min (max progress 0) 1,
                       remaining = next - c\<rparr>)
                else progress_loop count (i + 1))
         else
           \<lparr>currentTier = tier_info.tier (tiers ! (length tiers - 1)),
            nextTier = None,
            progress = 1,
            remaining = 0\<rparr>)"
  by pat_completeness auto
termination
  by (relation "measure (\<lambda>(count, i). length getTierInfo - 1 - i)") auto

declare progress_loop.simps [simp del]

text \<open>The count is read from the store; what \<open>getMessageCount\<close> throws goes through.\<close>

definition getProgressToNextTier :: "'f localStorage \<Rightarrow> error + progress_result" where
  "getProgressToNextTier ls =
     (case getMessageCount ls of
        Inl err \<Rightarrow> Inl err
      | Inr count \<Rightarrow> Inr (progress_loop (map_option int count) 0))"

text \<open>The place of a tier name in the ascending table, to compare tiers.\<close>

fun index_of :: "js_string \<Rightarrow> tier_info list \<Rightarrow> nat" where
  "index_of name [] = 0"
| "index_of name (t # ts) = (if tier_info.tier t = name then 0 else Suc (index_of name ts))"

definition tier_rank :: "js_string \<Rightarrow> nat" where
  "tier_rank name = index_of name getTierInfo"

section \<open>Nodes.js: the node system\<close>

text \<open>
  Two versions of \<open>Nodes.js\<close> are in the repository: the emotion nodes, whose shape and
  colour follow \<open>message.emotion\<close>, and the inscriptions, whose shape follows the tree part
  of the placement. Their definitions carry the suffixes \<open>_emotion\<close> and \<open>_treePart\<close>.
  What they share is defined once.
\<close>

subsection \<open>Three.js objects\<close>

text \<open>
  A geometry is the constructor called and its arguments; the radius of the default
  sphere may be \<open>undefined\<close>. A material is the record of its uniforms (the shader texts
  are constants); \<open>glowIntensity\<close> exists in the inscription variant only.
\<close>

datatype 'f geometry =
    IcosahedronGeometry 'f nat
  | SphereGeometry "'f option" nat nat
  | LatheGeometry "('f \<times> 'f) list" nat
  | ConeGeometry 'f 'f nat
  | TorusGeometry 'f 'f nat nat
  | DodecahedronGeometry 'f nat
  | OctahedronGeometry 'f nat
  | BoxGeometry 'f 'f 'f
  | CapsuleGeometry 'f 'f nat nat

record 'f uniforms =
  time :: 'f
  baseColor :: "nat option"
  emissiveColor :: "nat option"
  pulsePhase :: 'f
  glowIntensity :: "'f option"
  birthTime :: 'f
  currentTime :: 'f

record 'f PointLight =
  color :: "nat option"
  intensity :: 'f
  distance :: 'f

record 'f userData =
  messageId :: js_string
  message :: "'f message"
  originalPosition :: "'f vec3"
  swayPhase :: 'f
  swayAmplitude :: 'f

record 'f Mesh =
  geometry :: "'f geometry"
  material :: "'f uniforms"
  position :: "'f vec3"
  scale :: 'f
  userData :: "'f userData"
  children :: "'f PointLight list"

text \<open>
  The state of a \<open>NodeSystem\<close> and of what it calls: the message meshes that it has
  added to the scene, in order; its two maps and its time; the number of
  \<open>Math.random()\<close> and \<open>performance.now()\<close> calls so far; the cells of the seeded
  generators; and the callbacks handed to \<open>requestAnimationFrame\<close>, each the birth
  animation of a mesh (its message id and start time).
\<close>

record 'f NodeSystem =
  scene :: "'f Mesh list"
  meshes :: "js_string \<rightharpoonup> 'f Mesh"
  nodes :: "js_string \<rightharpoonup> 'f message"
  time :: 'f
  random_calls :: nat
  clock_reads :: nat
  cells :: "'f cells"
  frames :: "(js_string \<times> 'f) list"

definition new_NodeSystem :: "('f, 'e) engine_scheme \<Rightarrow> 'f NodeSystem" where
  "new_NodeSystem M =
     \<lparr>NodeSystem.scene = [], NodeSystem.meshes = Map.empty, NodeSystem.nodes = Map.empty,
      NodeSystem.time = num M 0, NodeSystem.random_calls = 0, NodeSystem.clock_reads = 0,
      NodeSystem.cells = [], NodeSystem.frames = []\<rparr>"

text \<open>\<open>Math.random()\<close>: the next value of the engine's generator.\<close>

definition random :: "('f, 'e) engine_scheme \<Rightarrow> 'f NodeSystem \<Rightarrow> 'f \<times> 'f NodeSystem" where
  "random M st =
     (Math_random M (random_calls st), st\<lparr>NodeSystem.random_calls := Suc (random_calls st)\<rparr>)"

definition now :: "('f, 'e) engine_scheme \<Rightarrow> 'f NodeSystem \<Rightarrow> 'f \<times> 'f NodeSystem" where
  "now M st =
     (performance_now M (clock_reads st), st\<lparr>NodeSystem.clock_reads := Suc (clock_reads st)\<rparr>)"

text \<open>
  \<open>animateBirth\<close> sets the start scale and runs the first frame of the animation at
  once; that frame asks for the next one while \<open>progress < 1\<close>. The later frames run
  from the browser's frame loop and are not part of a call of \<open>addNode\<close>. The mesh is one
  object: what is written to it here is seen through the scene and through the map.
\<close>

definition animateBirth ::
  "('f, 'e) engine_scheme \<Rightarrow> 'f Mesh \<Rightarrow> 'f NodeSystem \<Rightarrow> 'f Mesh \<times> 'f NodeSystem" where
  "animateBirth M mesh st =
     (let startScale = num M 0.1;
          endScale = num M 1.0;
          duration = num M 1200;
          (startTime, st1) = now M st;
          mesh1 = mesh\<lparr>Mesh.scale := startScale\<rparr>;
          (t1, st2) = now M st1;
          elapsed = num_sub M t1 startTime;
          progress = Math_min M (num_div M elapsed duration) (num M 1);
          overshoot = num M 1.1;
          scale =
            (if num_lt M progress (num M 0.7) then
               num_add M startScale
                 (num_mul M (num_sub M (num_mul M endScale overshoot) startScale)
                    (num_div M progress (num M 0.7)))
             else
               (let t = num_div M (num_sub M progress (num M 0.7)) (num M 0.3)
                in num_sub M (num_mul M endScale overshoot)
                     (num_mul M (num_sub M (num_mul M endScale overshoot) endScale) t)));
          mesh2 = mesh1\<lparr>Mesh.scale := scale\<rparr>;
          st3 = (if num_lt M progress (num M 1)
                 then st2\<lparr>NodeSystem.frames :=
                        frames st2 @ [(userData.messageId (Mesh.userData mesh), startTime)]\<rparr>
                 else st2)
      in (mesh2, st3))"

subsection \<open>The inscription variant\<close>

record message_config =
  color :: nat
  emissive :: nat
  scale :: rat

definition MESSAGE_CONFIG :: message_config where
  "MESSAGE_CONFIG =
     \<lparr>message_config.color = 0xffd700, message_config.emissive = 0xffa500,
      message_config.scale = 0.25\<rparr>"

definition createGeometry_treePart ::
  "('f, 'e) engine_scheme \<Rightarrow> js_string option \<Rightarrow> 'f geometry" where
  "createGeometry_treePart M part =
     (let scale = num M (message_config.scale MESSAGE_CONFIG)
      in if part = Some (js ''trunk'') then
           BoxGeometry (num_mul M scale (num M 1.5)) (num_mul M scale (num M 2))
             (num_mul M scale (num M 0.3))
         else if part = Some (js ''branch'') then
           CapsuleGeometry (num_mul M scale (num M 0.3)) (num_mul M scale (num M 1.2)) 4 8
         else if part = Some (js ''leaf'') then
           SphereGeometry (Some scale) 8 8
         else if part = Some (js ''root'') then
           TorusGeometry (num_mul M scale (num M 0.6)) (num_mul M scale (num M 0.2)) 6 12
         else SphereGeometry (Some scale) 16 16)"

text \<open>The default \<open>1.0\<close> of the parameter applies when the argument is \<open>undefined\<close>.\<close>

definition createMaterial_treePart ::
  "('f, 'e) engine_scheme \<Rightarrow> 'f option \<Rightarrow> 'f NodeSystem \<Rightarrow> 'f uniforms \<times> 'f NodeSystem" where
  "createMaterial_treePart M glowArg st =
     (let glow = (case glowArg of None \<Rightarrow> num M 1.0 | Some g \<Rightarrow> g);
          (r, st1) = random M st
      in (\<lparr>uniforms.time = num M 0,
           uniforms.baseColor = Some (message_config.color MESSAGE_CONFIG),
           uniforms.emissiveColor = Some (message_config.emissive MESSAGE_CONFIG),
           uniforms.pulsePhase = num_mul M (num_mul M r (Math_PI M)) (num M 2),
           uniforms.glowIntensity = Some glow,
           uniforms.birthTime = num M 0,
           uniforms.currentTime = num M 0\<rparr>, st1))"

text \<open>
  \<open>a || b\<close> is \<open>b\<close> when \<open>a\<close> is \<open>undefined\<close>, the empty string, zero or \<open>NaN\<close>.
  The result of \<open>addNode\<close> is the new mesh, or \<open>undefined\<close> (\<open>None\<close>) from the early
  \<open>return\<close>.
\<close>

definition addNode_treePart ::
  "('f, 'e) engine_scheme \<Rightarrow> 'f message \<Rightarrow> 'f NodeSystem \<Rightarrow> 'f Mesh option \<times> 'f NodeSystem" where
  "addNode_treePart M msg st =
     (if meshes st (message_id msg) \<noteq> None then (None, st)
      else
        (let (pl_position, pl_treePart, pl_glowIntensity, st1) =
               (case message.position msg of
                  Some p \<Rightarrow> (p, message.treePart msg, message.glowIntensity msg, st)
                | None \<Rightarrow>
                    (let (pl, h) = getMessagePlacement M (userName msg) (message_id msg) (cells st)
                     in (placement.position pl, placement.treePart pl,
                         Some (placement.glowIntensity pl), st\<lparr>NodeSystem.cells := h\<rparr>)));
             part = (case message.treePart msg of
                       Some t \<Rightarrow> if t \<noteq> [] then Some t else pl_treePart
                     | None \<Rightarrow> pl_treePart);
             pos = (case message.position msg of Some p \<Rightarrow> p | None \<Rightarrow> pl_position);
             intensity = (case message.glowIntensity msg of
                            Some g \<Rightarrow> if falsy M g then pl_glowIntensity else Some g
                          | None \<Rightarrow> pl_glowIntensity);
             geometry = createGeometry_treePart M part;
             (material, st2) = createMaterial_treePart M intensity st1;
             material = material\<lparr>uniforms.birthTime := NodeSystem.time st\<rparr>;
             (r1, st3) = random M st2;
             (r2, st4) = random M st3;
             glow = \<lparr>PointLight.color = Some (message_config.emissive MESSAGE_CONFIG),
                     PointLight.intensity =
                       (case intensity of None \<Rightarrow> NaN M | Some g \<Rightarrow> num_mul M g (num M 0.3)),
                     PointLight.distance = num M 2\<rparr>;
             mesh = \<lparr>Mesh.geometry = geometry, Mesh.material = material, Mesh.position = pos,
                     Mesh.scale = num M 1,
                     Mesh.userData =
                       \<lparr>userData.messageId = message_id msg,
                        userData.message = msg\<lparr>message.treePart := part\<rparr>,
                        userData.originalPosition = pos,
                        userData.swayPhase = num_mul M (num_mul M r1 (Math_PI M)) (num M 2),
                        userData.swayAmplitude =
                          num_add M (num M 0.01) (num_mul M r2 (num M 0.02))\<rparr>,
                     Mesh.children = [glow]\<rparr>;
             (mesh, st5) = animateBirth M mesh st4
         in (Some mesh,
             st5\<lparr>NodeSystem.scene := scene st5 @ [mesh],
                 NodeSystem.meshes := (meshes st5)(message_id msg \<mapsto> mesh),
                 NodeSystem.nodes := (nodes st5)(message_id msg \<mapsto> msg\<lparr>message.treePart := part\<rparr>)\<rparr>)))"

fun loadNodes_treePart ::
  "('f, 'e) engine_scheme \<Rightarrow> 'f message list \<Rightarrow> 'f NodeSystem \<Rightarrow> 'f NodeSystem" where
  "loadNodes_treePart M [] st = st"
| "loadNodes_treePart M (msg # msgs) st =
     loadNodes_treePart M msgs (snd (addNode_treePart M msg st))"

definition getNodeByMessageId :: "js_string \<Rightarrow> 'f NodeSystem \<Rightarrow> 'f Mesh option" where
  "getNodeByMessageId k st = meshes st k"

text \<open>The live nodes of a message id: the meshes in the scene that carry it.\<close>

definition live_nodes :: "js_string \<Rightarrow> 'f NodeSystem \<Rightarrow> nat" where
  "live_nodes k st =
     length (filter (\<lambda>mesh. userData.messageId (Mesh.userData mesh) = k) (scene st))"

subsection \<open>The emotion variant\<close>

text \<open>
  The emotion nodes take their position from the earlier \<open>hash.js\<close>, whose
  \<open>getNodePosition\<close> spreads the nodes over the canopy.
\<close>

definition getNodePosition_canopy ::
  "('f, 'e) engine_scheme \<Rightarrow> js_string \<Rightarrow> js_string \<Rightarrow> 'f cells \<Rightarrow> 'f vec3 \<times> 'f cells" where
  "getNodePosition_canopy M name mid h =
     (let seed = hashCode (name @ mid);
          (rand, h0) = seededRandom (num M (of_int seed)) h;
          canopyCenter = Vec3 (num M 0) (num M 8) (num M 0);
          canopyRadius = num M 6;
          goldenAngle = num_mul M (Math_PI M) (num_sub M (num M 3) (Math_sqrt M (num M 5)));
          theta = num_mul M (num M (of_int seed)) goldenAngle;
          (r1, h1) = call_rand M rand h0;
          phi = Math_acos M (num_sub M (num M 1) (num_mul M (num M 2) r1));
          (r2, h2) = call_rand M rand h1;
          r = num_mul M canopyRadius (num_add M (num M 0.6) (num_mul M r2 (num M 0.4)))
      in (case canopyCenter of
            Vec3 cx cy cz \<Rightarrow>
              (Vec3 (num_add M cx (num_mul M (num_mul M r (Math_sin M phi)) (Math_cos M theta)))
                    (num_add M cy (num_mul M (num_mul M r (Math_cos M phi)) (num M 0.8)))
                    (num_add M cz (num_mul M (num_mul M r (Math_sin M phi)) (Math_sin M theta))),
               h2)))"

record emotion_config =
  color :: nat
  emissive :: nat
  type :: js_string
  geometry :: js_string
  scale :: rat

definition EMOTION_CONFIG :: "(js_string \<times> emotion_config) list" where
  "EMOTION_CONFIG =
     [(js ''joy'',
       \<lparr>emotion_config.color = 0x90EE90, emotion_config.emissive = 0x4CAF50,
        emotion_config.type = js ''leaf'', emotion_config.geometry = js ''icosahedron'',
        emotion_config.scale = 0.3\<rparr>),
      (js ''love'',
       \<lparr>emotion_config.color = 0xFFB6C1, emotion_config.emissive = 0xFF69B4,
        emotion_config.type = js ''blossom'', emotion_config.geometry = js ''sphere'',
        emotion_config.scale = 0.35\<rparr>),
      (js ''sadness'',
       \<lparr>emotion_config.color = 0xC0C0C0, emotion_config.emissive = 0x808080,
        emotion_config.type = js ''droplet'', emotion_config.geometry = js ''teardrop'',
        emotion_config.scale = 0.25\<rparr>),
      (js ''anger'',
       \<lparr>emotion_config.color = 0x8B0000, emotion_config.emissive = 0xFF0000,
        emotion_config.type = js ''bud'', emotion_config.geometry = js ''cone'',
        emotion_config.scale = 0.28\<rparr>),
      (js ''confusion'',
       \<lparr>emotion_config.color = 0xDDA0DD, emotion_config.emissive = 0x9932CC,
        emotion_config.type = js ''curl'', emotion_config.geometry = js ''torus'',
        emotion_config.scale = 0.25\<rparr>),
      (js ''secret'',
       \<lparr>emotion_config.color = 0xFFD700, emotion_config.emissive = 0xFFA500,
        emotion_config.type = js ''fruit'', emotion_config.geometry = js ''dodecahedron'',
        emotion_config.scale = 0.35\<rparr>),
      (js ''excitement'',
       \<lparr>emotion_config.color = 0xFFFF00, emotion_config.emissive = 0xFFD700,
        emotion_config.type = js ''spark'', emotion_config.geometry = js ''octahedron'',
        emotion_config.scale = 0.3\<rparr>)]"

text \<open>
  \<open>EMOTION_CONFIG[emotion]\<close> reads a property of an object literal: one of its own
  seven, or one that every object inherits from \<open>Object.prototype\<close> (a function, or the
  prototype itself, none of which has a \<open>geometry\<close>, \<open>scale\<close>, \<open>color\<close> or \<open>emissive\<close>),
  or \<open>undefined\<close>. A missing \<open>emotion\<close> reads the property named \<open>undefined\<close>.
\<close>

datatype property = Own emotion_config | Inherited | Undefined

definition Object_prototype :: "js_string list" where
  "Object_prototype =
     [js ''constructor'', js ''__defineGetter__'', js ''__defineSetter__'',
      js ''hasOwnProperty'', js ''__lookupGetter__'', js ''__lookupSetter__'',
      js ''isPrototypeOf'', js ''propertyIsEnumerable'', js ''toString'', js ''valueOf'',
      js ''__proto__'', js ''toLocaleString'']"

definition EMOTION_CONFIG_get :: "js_string option \<Rightarrow> property" where
  "EMOTION_CONFIG_get e =
     (let key = (case e of None \<Rightarrow> js ''undefined'' | Some k \<Rightarrow> k)
      in case map_of EMOTION_CONFIG key of
           Some config \<Rightarrow> Own config
         | None \<Rightarrow> if key \<in> set Object_prototype then Inherited else Undefined)"

text \<open>
  Reading \<open>config.geometry\<close> of \<open>undefined\<close> throws a \<open>TypeError\<close>; of an inherited
  property it gives \<open>undefined\<close>, which falls to the \<open>default\<close> of the \<open>switch\<close>.
\<close>

definition createGeometry_emotion ::
  "('f, 'e) engine_scheme \<Rightarrow> js_string option \<Rightarrow> error + 'f geometry" where
  "createGeometry_emotion M e =
     (case EMOTION_CONFIG_get e of
        Undefined \<Rightarrow> Inl TypeError
      | Inherited \<Rightarrow> Inr (SphereGeometry None 16 16)
      | Own config \<Rightarrow>
          Inr (let scale = num M (emotion_config.scale config);
                   kind = emotion_config.geometry config
               in if kind = js ''icosahedron'' then IcosahedronGeometry scale 1
                  else if kind = js ''sphere'' then SphereGeometry (Some scale) 16 16
                  else if kind = js ''teardrop'' then
                    LatheGeometry
                      (map (\<lambda>i. let t = num_div M (num M (of_nat i)) (num M 10);
                                    r = num_mul M
                                          (num_mul M (Math_sin M (num_mul M t (Math_PI M)))
                                             (num M 0.15))
                                          (num_sub M (num M 1) (num_mul M t (num M 0.5)))
                                in (r, num_sub M (num_mul M t (num M 0.4)) (num M 0.2)))
                         [0..<11])
                      12
                  else if kind = js ''cone'' then
                    ConeGeometry (num_mul M scale (num M 0.6)) (num_mul M scale (num M 1.2)) 8
                  else if kind = js ''torus'' then
                    TorusGeometry (num_mul M scale (num M 0.6)) (num_mul M scale (num M 0.2)) 8 16
                  else if kind = js ''dodecahedron'' then DodecahedronGeometry scale 0
                  else if kind = js ''octahedron'' then OctahedronGeometry scale 0
                  else SphereGeometry (Some scale) 16 16))"

definition createMaterial_emotion ::
  "('f, 'e) engine_scheme \<Rightarrow> js_string option \<Rightarrow> 'f NodeSystem \<Rightarrow>
     (error + 'f uniforms) \<times> 'f NodeSystem" where
  "createMaterial_emotion M e st =
     (case EMOTION_CONFIG_get e of
        Undefined \<Rightarrow> (Inl TypeError, st)
      | p \<Rightarrow>
          (let (base, glow) =
                 (case p of
                    Own config \<Rightarrow>
                      (Some (emotion_config.color config), Some (emotion_config.emissive config))
                  | _ \<Rightarrow> (None, None));
               (r, st1) = random M st
           in (Inr \<lparr>uniforms.time = num M 0,
                    uniforms.baseColor = base,
                    uniforms.emissiveColor = glow,
                    uniforms.pulsePhase = num_mul M (num_mul M r (Math_PI M)) (num M 2),
                    uniforms.glowIntensity = None,
                    uniforms.birthTime = num M 0,
                    uniforms.currentTime = num M 0\<rparr>, st1)))"

text \<open>
  An exception leaves \<open>addNode\<close> at once: the state is what the calls before it made of
  it, and the result is the error.
\<close>

definition addNode_emotion ::
  "('f, 'e) engine_scheme \<Rightarrow> 'f message \<Rightarrow> 'f NodeSystem \<Rightarrow>
     (error + 'f Mesh option) \<times> 'f NodeSystem" where
  "addNode_emotion M msg st =
     (if meshes st (message_id msg) \<noteq> None then (Inr None, st)
      else
        (let (pos, st1) =
               (case node_position msg of
                  Some p \<Rightarrow> (p, st)
                | None \<Rightarrow>
                    (let (p, h) = getNodePosition_canopy M (userName msg) (message_id msg) (cells st)
                     in (p, st\<lparr>NodeSystem.cells := h\<rparr>)))
         in case createGeometry_emotion M (emotion msg) of
              Inl err \<Rightarrow> (Inl err, st1)
            | Inr geom \<Rightarrow>
                (case createMaterial_emotion M (emotion msg) st1 of
                   (Inl err, st2) \<Rightarrow> (Inl err, st2)
                 | (Inr mat, st2) \<Rightarrow>
                     (let geometry = geom;
                          material = mat\<lparr>uniforms.birthTime := NodeSystem.time st\<rparr>;
                          (r1, st3) = random M st2;
                          (r2, st4) = random M st3;
                          mesh = \<lparr>Mesh.geometry = geometry, Mesh.material = material,
                                  Mesh.position = pos, Mesh.scale = num M 1,
                                  Mesh.userData =
                                    \<lparr>userData.messageId = message_id msg,
                                     userData.message = msg,
                                     userData.originalPosition = pos,
                                     userData.swayPhase =
                                       num_mul M (num_mul M r1 (Math_PI M)) (num M 2),
                                     userData.swayAmplitude =
                                       num_add M (num M 0.01) (num_mul M r2 (num M 0.02))\<rparr>,
                                  Mesh.children = []\<rparr>
                      in case EMOTION_CONFIG_get (emotion msg) of
                           Undefined \<Rightarrow> (Inl TypeError, st4)
                         | config \<Rightarrow>
                             (let glow = \<lparr>PointLight.color =
                                            (case config of
                                               Own c \<Rightarrow> Some (emotion_config.emissive c)
                                             | _ \<Rightarrow> None),
                                          PointLight.intensity = num M 0.3,
                                          PointLight.distance = num M 2\<rparr>;
                                  mesh = mesh\<lparr>Mesh.children := [glow]\<rparr>;
                                  (mesh, st5) = animateBirth M mesh st4
                              in (Inr (Some mesh),
                                  st5\<lparr>NodeSystem.scene := scene st5 @ [mesh],
                                      NodeSystem.meshes := (meshes st5)(message_id msg \<mapsto> mesh),
                                      NodeSystem.nodes := (nodes st5)(message_id msg \<mapsto> msg)\<rparr>))))))"

text \<open>\<open>forEach\<close> ends with the first exception of its callback.\<close>

fun loadNodes_emotion ::
  "('f, 'e) engine_scheme \<Rightarrow> 'f message list \<Rightarrow> 'f NodeSystem \<Rightarrow>
     error option \<times> 'f NodeSystem" where
  "loadNodes_emotion M [] st = (None, st)"
| "loadNodes_emotion M (msg # msgs) st =
     (case addNode_emotion M msg st of
        (Inl err, st1) \<Rightarrow> (Some err, st1)
      | (Inr mesh, st1) \<Rightarrow> loadNodes_emotion M msgs st1)"

section \<open>Example data\<close>

text \<open>
  Concrete inputs for the instances further down: an engine that computes with real numbers
  in place of doubles (it has no \<open>NaN\<close>; \<open>0\<close> stands in), three messages, two of which
  share the id \<open>m1\<close>, a storage area with room, one that holds \<open>n\<close> messages, and a
  clock in UTC whose parser knows the two date texts of the messages.
\<close>

definition exact_engine :: "real engine" where
  "exact_engine =
     \<lparr>num = of_rat, NaN = 0, num_add = (+), num_sub = (-), num_mul = (*), num_div = (/),
      num_rem = (\<lambda>a b. a - b * of_int (if 0 \<le> a / b then \<lfloor>a / b\<rfloor> else \<lceil>a / b\<rceil>)),
      num_neg = uminus, num_lt = (<), falsy = (\<lambda>a. a = 0),
      Math_PI = pi, Math_sin = sin, Math_cos = cos, Math_acos = arccos, Math_sqrt = sqrt,
      Math_floor = (\<lambda>a. of_int \<lfloor>a\<rfloor>), Math_min = min,
      Math_random = (\<lambda>n. 1 / 2), performance_now = (\<lambda>n. of_nat n)\<rparr>"

definition example_message ::
  "string \<Rightarrow> string \<Rightarrow> string \<Rightarrow> string \<Rightarrow> string \<Rightarrow> real message" where
  "example_message i u t ts e =
     \<lparr>message_id = js i, userName = js u, message.message = js t, timestamp = js ts,
      message.treePart = None, message.position = None, message.glowIntensity = None,
      emotion = Some (js e), node_position = None\<rparr>"

definition alice_m1 :: "real message" where
  "alice_m1 = example_message ''m1'' ''Alice'' ''hi'' ''2024-12-31T23:59:59.000Z'' ''joy''"

definition bob_m1 :: "real message" where
  "bob_m1 = example_message ''m1'' ''Bob'' ''yo'' ''2025-01-01T00:00:00.000Z'' ''fear''"

definition carol_m2 :: "real message" where
  "carol_m2 = example_message ''m2'' ''Carol'' ''hey'' ''2025-01-01T00:00:00.000Z'' ''love''"

definition fresh_storage :: "real localStorage" where
  "fresh_storage = \<lparr>item = None, denied = False, accepts = (\<lambda>v. True)\<rparr>"

definition utc_clock :: clock where
  "utc_clock =
     \<lparr>Date_parse = (\<lambda>s. if s = js ''2024-12-31T23:59:59.000Z'' then Some 1735689599000
                         else if s = js ''2025-01-01T00:00:00.000Z'' then Some 1735689600000
                         else None),
      LocalTZA = (\<lambda>t. 0),
      Date_now = 1735689600000\<rparr>"

definition crowded_storage :: "nat \<Rightarrow> real localStorage" where
  "crowded_storage n =
     fresh_storage\<lparr>item := Some (Json (Array (replicate n (Message alice_m1))))\<rparr>"

section \<open>Properties of the placement\<close>

lemma hashCode_nonneg: "0 \<le> hashCode str"
  by (simp add: hashCode_def)

lemma int_rem_nonneg: "0 \<le> a \<Longrightarrow> 0 < b \<Longrightarrow> int_rem a b = a mod b"
  by (cases "a = 0") (simp_all add: int_rem_def)

lemma partIndex_eq: "int_rem (hashCode str) (int (length TREE_PARTS)) = hashCode str mod 4"
  by (simp add: int_rem_nonneg hashCode_nonneg TREE_PARTS_def)

lemma array_get_TREE_PARTS:
  "array_get TREE_PARTS (hashCode str mod 4) = Some (TREE_PARTS ! nat (hashCode str mod 4))"
  by (simp add: array_get_def TREE_PARTS_def)

text \<open>
  A closure that \<open>seededRandom\<close> has just made owns the last cell of the store: a call
  reads and writes that cell only, whatever the cells before it hold.
\<close>

lemma call_rand_fresh:
  "call_rand M (length h) (h @ [s]) =
     (let s' = num_mul M (Math_sin M (num_mul M s (num M 9999))) (num M 10000)
      in (num_sub M s' (Math_floor M s'), h @ [s']))"
  by (simp add: call_rand_def Let_def)

lemma getPositionForTreePart_frame:
  "\<exists>p s'. \<forall>h. getPositionForTreePart M part (length h) seed (h @ [s]) = (p, h @ [s'])"
proof -
  consider (trunk) "part = Some (js ''trunk'')"
    | (branch) "part = Some (js ''branch'')"
    | (leaf) "part = Some (js ''leaf'')"
    | (root) "part = Some (js ''root'')"
    | (other) "part \<noteq> Some (js ''trunk'')" "part \<noteq> Some (js ''branch'')"
        "part \<noteq> Some (js ''leaf'')" "part \<noteq> Some (js ''root'')"
    by blast
  then show ?thesis
  proof cases
    case trunk
    then show ?thesis
      by (simp add: getPositionForTreePart_def call_rand_fresh Let_def)
  next
    case branch
    then show ?thesis
      by (simp add: getPositionForTreePart_def call_rand_fresh Let_def js_def)
  next
    case leaf
    then show ?thesis
      by (simp add: getPositionForTreePart_def call_rand_fresh Let_def js_def)
  next
    case root
    then show ?thesis
      by (simp add: getPositionForTreePart_def call_rand_fresh Let_def js_def)
  next
    case other
    then show ?thesis
      by (simp add: getPositionForTreePart_def)
  qed
qed

lemma getMessagePlacement_frame:
  "\<exists>p s'. \<forall>h. getMessagePlacement M name mid h = (p, h @ [s'])"
proof -
  let ?seed = "hashCode (name @ mid)"
  obtain p s' where P:
    "\<And>h. getPositionForTreePart M (array_get TREE_PARTS (?seed mod 4)) (length h) ?seed
            (h @ [num M (of_int ?seed)]) = (p, h @ [s'])"
    using getPositionForTreePart_frame by metis
  show ?thesis
    by (simp add: getMessagePlacement_def seededRandom_def partIndex_eq P call_rand_fresh Let_def)
qed

text \<open>Neither \<open>Math.random\<close> nor the clock is read on the way.\<close>

lemma call_rand_ambient:
  "call_rand (M\<lparr>Math_random := r, performance_now := c\<rparr>) = call_rand M"
  by (intro ext) (simp add: call_rand_def)

lemma getPositionForTreePart_ambient:
  "getPositionForTreePart (M\<lparr>Math_random := r, performance_now := c\<rparr>) =
   getPositionForTreePart M"
  by (intro ext) (simp add: getPositionForTreePart_def call_rand_ambient)

lemma getMessagePlacement_ambient:
  "getMessagePlacement (M\<lparr>Math_random := r, performance_now := c\<rparr>) name mid h =
   getMessagePlacement M name mid h"
  by (simp add: getMessagePlacement_def getPositionForTreePart_ambient call_rand_ambient)

text \<open>
  C1. Placement is deterministic: two calls of \<open>getMessagePlacement\<close> with the same
  user name and message id return the same tree part, the same position and the same glow
  intensity. The call history does not enter: \<open>h\<close> and \<open>h'\<close>, what earlier calls have
  left in the cells of their generators, are arbitrary. Ambient randomness and time do not
  enter: the second call may see any other \<open>Math.random\<close> and any other clock. What
  remains is the two strings and the arithmetic of the engine.
\<close>

theorem getMessagePlacement_deterministic:
  "fst (getMessagePlacement M name mid h) =
   fst (getMessagePlacement (M\<lparr>Math_random := r, performance_now := c\<rparr>) name mid h')"
proof -
  obtain p s' where "\<And>k. getMessagePlacement M name mid k = (p, k @ [s'])"
    using getMessagePlacement_frame by metis
  then show ?thesis
    by (simp add: getMessagePlacement_ambient)
qed

text \<open>
  C2. The category is a function of the seed alone: the tree part that
  \<open>getMessagePlacement\<close> returns is the element of \<open>['trunk', 'branch', 'leaf', 'root']\<close>
  at index \<open>hashCode(userName + messageId) mod 4\<close>, for every arithmetic \<open>M\<close> and so
  for every value that the seeded generator may draw.
\<close>

theorem getMessagePlacement_treePart:
  "placement.treePart (fst (getMessagePlacement M name mid h)) =
     Some (TREE_PARTS ! nat (hashCode (name @ mid) mod 4))
   \<and> TREE_PARTS = [js ''trunk'', js ''branch'', js ''leaf'', js ''root'']
   \<and> nat (hashCode (name @ mid) mod 4) < length TREE_PARTS"
proof -
  have "placement.treePart (fst (getMessagePlacement M name mid h)) =
          array_get TREE_PARTS (hashCode (name @ mid) mod 4)"
    by (simp add: getMessagePlacement_def partIndex_eq split_def Let_def)
  then show ?thesis
    by (simp add: array_get_TREE_PARTS) (simp add: TREE_PARTS_def)
qed

section \<open>Properties of the message store\<close>

lemma getAllMessages_cases:
  "getAllMessages ls =
     (if denied ls then Array []
      else case item ls of Some (Json v) \<Rightarrow> v | _ \<Rightarrow> Array [])"
  by (simp add: getAllMessages_def getItem_def JSON_parse_def split: option.splits stored.splits)

lemma saveMessage_cases:
  "saveMessage m ls =
     (case getAllMessages ls of
        Array es \<Rightarrow>
          if \<not> denied ls \<and> accepts ls (Json (Array (es @ [Message m])))
          then (True, ls\<lparr>item := Some (Json (Array (es @ [Message m])))\<rparr>)
          else (False, ls)
      | _ \<Rightarrow> (False, ls))"
  by (simp add: saveMessage_def push_def setItem_def JSON_stringify_def Let_def split: json.splits)

lemma saveMessage_success:
  assumes "saveMessage m ls = (True, ls')"
  shows "\<exists>es. getAllMessages ls = Array es \<and> getAllMessages ls' = Array (es @ [Message m])"
  using assms by (auto simp: saveMessage_cases getAllMessages_cases split: json.splits if_splits)

lemma saveMessage_failure:
  assumes "saveMessage m ls = (False, ls')"
  shows "ls' = ls"
  using assms by (auto simp: saveMessage_cases split: json.splits if_splits)

lemma find_entry_append:
  "find_entry P (es @ [Message m]) =
     (case find_entry P es of
        Inl err \<Rightarrow> Inl err
      | Inr None \<Rightarrow> (if P m then Inr (Some m) else Inr None)
      | Inr (Some m0) \<Rightarrow> Inr (Some m0))"
  by (induction P es rule: find_entry.induct) simp_all

lemma filter_entries_messages: "filter_entries P (map Message ms) = Inr (filter P ms)"
  by (induction ms) simp_all

lemma example_ids:
  "message_id alice_m1 = js ''m1''" "message_id bob_m1 = js ''m1''" "message_id carol_m2 = js ''m2''"
  by (simp_all add: alice_m1_def bob_m1_def carol_m2_def example_message_def)

lemma alice_neq_bob: "alice_m1 \<noteq> bob_m1"
  by (simp add: alice_m1_def bob_m1_def example_message_def js_def)

lemma m1_neq_m2: "js ''m1'' \<noteq> js ''m2''"
  by (simp add: js_def)

text \<open>
  C3 (as amended). After a successful \<open>saveMessage(m)\<close>, \<open>getMessageById(m.message_id)\<close>
  returns \<open>m\<close> when no message stored before carries that id; when one does, it returns
  the first stored message with that id, as before the call. The store keeps whatever ids
  it is given: \<open>saveMessage\<close> appends without looking at them, and \<open>find\<close> stops at the
  first match. This holds for every content of the storage area; when the lookup threw
  before the call (a \<open>null\<close> entry ahead of any match), it throws after it.
\<close>

theorem saveMessage_getMessageById:
  assumes "saveMessage m ls = (True, ls')"
  shows "getMessageById (message_id m) ls' =
           (case getMessageById (message_id m) ls of
              Inl err \<Rightarrow> Inl err
            | Inr None \<Rightarrow> Inr (Some m)
            | Inr (Some m0) \<Rightarrow> Inr (Some m0))"
proof -
  obtain es where "getAllMessages ls = Array es" "getAllMessages ls' = Array (es @ [Message m])"
    using saveMessage_success [OF assms] by blast
  then show ?thesis
    by (simp add: getMessageById_def find_entry_append split: sum.splits option.splits)
qed

text \<open>
  An instance of C3: saving Alice's message \<open>m1\<close> to a fresh storage area succeeds, and
  the lookup of \<open>m1\<close> returns it.
\<close>

theorem saveMessage_getMessageById_witness:
  "saveMessage alice_m1 fresh_storage =
     (True, fresh_storage\<lparr>item := Some (Json (Array [Message alice_m1]))\<rparr>)
   \<and> getMessageById (message_id alice_m1)
        (fresh_storage\<lparr>item := Some (Json (Array [Message alice_m1]))\<rparr>) =
       Inr (Some alice_m1)"
proof -
  have s: "saveMessage alice_m1 fresh_storage =
             (True, fresh_storage\<lparr>item := Some (Json (Array [Message alice_m1]))\<rparr>)"
    by (simp add: saveMessage_cases getAllMessages_cases fresh_storage_def)
  have "getMessageById (message_id alice_m1) fresh_storage = Inr None"
    by (simp add: getMessageById_def getAllMessages_cases fresh_storage_def)
  with saveMessage_getMessageById [OF s] s show ?thesis
    by simp
qed

text \<open>
  C3 as stated fails: the storage area holds Alice's message \<open>m1\<close>; saving Bob's
  message, which has the same id, succeeds, and the lookup of \<open>m1\<close> still returns Alice's.
\<close>

theorem saveMessage_getMessageById_counterexample:
  "fst (saveMessage bob_m1 (fresh_storage\<lparr>item := Some (Json (Array [Message alice_m1]))\<rparr>))
   \<and> getMessageById (message_id bob_m1)
        (snd (saveMessage bob_m1
               (fresh_storage\<lparr>item := Some (Json (Array [Message alice_m1]))\<rparr>))) =
       Inr (Some alice_m1)
   \<and> alice_m1 \<noteq> bob_m1"
  by (simp add: saveMessage_cases getAllMessages_cases getMessageById_def fresh_storage_def
        example_ids alice_neq_bob)

text \<open>
  C5. The claim: no operation of the store lets an exception of the persistence layer
  through, and \<open>getAllMessages\<close> returns the empty sequence when the read fails or the
  stored data is corrupt. The code at four inputs. The stored text \<open>null\<close> parses, so the
  handler of \<open>getAllMessages\<close> does not run and \<open>null\<close> is returned, not the empty
  sequence; \<open>getMessageCount\<close> then throws a \<open>TypeError\<close>. With the stored text \<open>[null]\<close>
  the callback of \<open>getMessageById\<close> throws, and with \<open>{}\<close> \<open>getMessagesForYear\<close> calls a
  \<open>filter\<close> that is not there. \<open>clearAllMessages\<close>, the one operation without the
  \<open>try\<close> and \<open>catch\<close> of the others, throws what a storage area that refuses access
  throws.
\<close>

theorem store_error_containment_failure:
  "getAllMessages (fresh_storage\<lparr>item := Some (Json Null)\<rparr>) = Null
   \<and> getMessageCount (fresh_storage\<lparr>item := Some (Json Null)\<rparr>) = Inl TypeError
   \<and> getMessageById (js ''m1'') (fresh_storage\<lparr>item := Some (Json (Array [Null_entry]))\<rparr>) =
       Inl TypeError
   \<and> getMessagesForYear utc_clock (Some 2024) (fresh_storage\<lparr>item := Some (Json EmptyObject)\<rparr>) =
       Inl TypeError
   \<and> clearAllMessages (fresh_storage\<lparr>denied := True\<rparr>) = Inl SecurityError"
  by (simp add: getAllMessages_cases getMessageCount_def getMessageById_def
        getMessagesForYear_def clearAllMessages_def removeItem_def fresh_storage_def)

lemma saveMessages_stored:
  "getAllMessages ls = Array es \<Longrightarrow>
   getAllMessages (snd (saveMessages ms ls)) =
     Array (es @ map Message (map snd (filter fst (zip (fst (saveMessages ms ls)) ms))))"
proof (induction ms arbitrary: ls es)
  case Nil
  then show ?case by simp
next
  case (Cons m ms)
  obtain ok ls1 where s: "saveMessage m ls = (ok, ls1)" by (cases "saveMessage m ls")
  have "getAllMessages ls1 = Array (es @ (if ok then [Message m] else []))"
    using s Cons.prems saveMessage_success [of m ls ls1] saveMessage_failure [of m ls ls1]
    by (cases ok) auto
  from Cons.IH [OF this] s show ?case
    by (cases ok) (simp_all add: split_def Let_def)
qed

lemma length_saveMessages: "length (fst (saveMessages ms ls)) = length ms"
  by (induction ms arbitrary: ls) (simp_all add: split_def Let_def)

lemma subseq_selected: "length bs = length xs \<Longrightarrow> subseq (map snd (filter fst (zip bs xs))) xs"
proof (induction xs arbitrary: bs)
  case Nil
  then show ?case by simp
next
  case (Cons x xs)
  then obtain b bs' where "bs = b # bs'" by (cases bs) auto
  with Cons show ?case by (cases b) auto
qed

lemma all_selected: "length bs = length xs \<Longrightarrow> \<forall>b\<in>set bs. b \<Longrightarrow> map snd (filter fst (zip bs xs)) = xs"
proof (induction xs arbitrary: bs)
  case Nil
  then show ?case by simp
next
  case (Cons x xs)
  then obtain b bs' where "bs = b # bs'" by (cases bs) auto
  with Cons show ?case by auto
qed

lemma distinct_subseq: "subseq xs ys \<Longrightarrow> distinct ys \<Longrightarrow> distinct xs"
  using subseqs_distinctD [of xs ys] by simp

text \<open>
  C6 (as amended). The store is an ordered append-only sequence: after any run of
  \<open>saveMessage\<close> calls from the empty store, the stored sequence consists of the messages
  whose call returned \<open>true\<close>, in the order of the calls (all of them when every call
  succeeded). The store does not compare ids: no two stored messages share a
  \<open>message_id\<close> provided the saved messages' ids were pairwise distinct.
\<close>

theorem saveMessages_sequence:
  assumes "item ls = None"
  shows "(let stored = map snd (filter fst (zip (fst (saveMessages ms ls)) ms))
          in getAllMessages (snd (saveMessages ms ls)) = Array (map Message stored)
             \<and> subseq stored ms
             \<and> ((\<forall>ok \<in> set (fst (saveMessages ms ls)). ok) \<longrightarrow>
                  getAllMessages (snd (saveMessages ms ls)) = Array (map Message ms))
             \<and> (distinct (map message_id ms) \<longrightarrow> distinct (map message_id stored)))"
proof -
  let ?oks = "fst (saveMessages ms ls)"
  let ?stored = "map snd (filter fst (zip ?oks ms))"
  have "getAllMessages ls = Array []"
    using assms by (simp add: getAllMessages_cases)
  from saveMessages_stored [OF this, of ms]
  have eq: "getAllMessages (snd (saveMessages ms ls)) = Array (map Message ?stored)"
    by simp
  have len: "length ?oks = length ms"
    by (rule length_saveMessages)
  have sub: "subseq ?stored ms"
    by (rule subseq_selected [OF len])
  have all: "?stored = ms" if "\<forall>ok \<in> set ?oks. ok"
    using len that by (rule all_selected)
  have "distinct (map message_id ?stored)" if "distinct (map message_id ms)"
    using subseq_map [OF sub, of message_id] that by (rule distinct_subseq)
  with eq sub all show ?thesis
    unfolding Let_def by metis
qed

text \<open>An instance of C6: two messages with the ids \<open>m1\<close> and \<open>m2\<close>, saved in turn.\<close>

theorem saveMessages_sequence_witness:
  "item fresh_storage = None
   \<and> fst (saveMessages [alice_m1, carol_m2] fresh_storage) = [True, True]
   \<and> distinct (map message_id [alice_m1, carol_m2])
   \<and> getAllMessages (snd (saveMessages [alice_m1, carol_m2] fresh_storage)) =
       Array [Message alice_m1, Message carol_m2]"
proof -
  have e: "item fresh_storage = None"
    by (simp add: fresh_storage_def)
  have oks: "fst (saveMessages [alice_m1, carol_m2] fresh_storage) = [True, True]"
    by (simp add: saveMessage_cases getAllMessages_cases fresh_storage_def Let_def)
  have d: "distinct (map message_id [alice_m1, carol_m2])"
    by (simp add: example_ids m1_neq_m2)
  from saveMessages_sequence [OF e, of "[alice_m1, carol_m2]"] oks d e show ?thesis
    by (simp add: Let_def)
qed

text \<open>
  C6 as stated fails: from the empty store, saving Alice's and then Bob's message, both
  with the id \<open>m1\<close>, stores both.
\<close>

theorem saveMessages_sequence_counterexample:
  "getAllMessages (snd (saveMessages [alice_m1, bob_m1] fresh_storage)) =
     Array [Message alice_m1, Message bob_m1]
   \<and> alice_m1 \<noteq> bob_m1
   \<and> message_id alice_m1 = message_id bob_m1"
  by (simp add: saveMessage_cases getAllMessages_cases fresh_storage_def Let_def
        example_ids alice_neq_bob)

subsection \<open>The year filter\<close>

lemma DayFromYear_1970: "DayFromYear 1970 = 0"
  by (simp add: DayFromYear_def)

lemma DayFromYear_mono_le:
  assumes "y \<le> y'"
  shows "DayFromYear y + 365 * (y' - y) \<le> DayFromYear y'"
proof -
  have "DayFromYear y + 365 * int n \<le> DayFromYear (y + int n)" for n
  proof (induction n)
    case 0
    show ?case by simp
  next
    case (Suc n)
    have "DayFromYear (y + int n) + 365 \<le> DayFromYear (y + int n + 1)"
      by (rule DayFromYear_lower)
    with Suc show ?case by (simp add: algebra_simps)
  qed
  from this [of "nat (y' - y)"] assms show ?thesis by simp
qed

lemma DayFromYear_mono_ge:
  assumes "y \<le> y'"
  shows "DayFromYear y' \<le> DayFromYear y + 366 * (y' - y)"
proof -
  have "DayFromYear (y + int n) \<le> DayFromYear y + 366 * int n" for n
  proof (induction n)
    case 0
    show ?case by simp
  next
    case (Suc n)
    have "DayFromYear (y + int n + 1) \<le> DayFromYear (y + int n) + 366"
      by (rule DayFromYear_upper)
    with Suc show ?case by (simp add: algebra_simps)
  qed
  from this [of "nat (y' - y)"] assms show ?thesis by simp
qed

lemma year_search_start:
  "DayFromYear (if 0 \<le> d then 1970 + d div 366 else 1970 + d div 365) \<le> d"
proof (cases "0 \<le> d")
  case True
  then have "0 \<le> d div 366" by simp
  then have "DayFromYear (1970 + d div 366) \<le> DayFromYear 1970 + 366 * (1970 + d div 366 - 1970)"
    by (intro DayFromYear_mono_ge) simp
  also have "\<dots> = 366 * (d div 366)" by (simp add: DayFromYear_1970)
  also have "\<dots> \<le> d" by simp
  finally show ?thesis using True by simp
next
  case False
  then have "d div 365 \<le> 0" by linarith
  then have "DayFromYear (1970 + d div 365) + 365 * (1970 - (1970 + d div 365)) \<le> DayFromYear 1970"
    by (intro DayFromYear_mono_le) simp
  then have "DayFromYear (1970 + d div 365) \<le> 365 * (d div 365)"
    by (simp add: DayFromYear_1970)
  also have "\<dots> \<le> d" by simp
  finally show ?thesis using False by simp
qed

lemma year_search_correct:
  "DayFromYear y \<le> d \<Longrightarrow>
   DayFromYear (year_search d y) \<le> d \<and> d < DayFromYear (year_search d y + 1)"
proof (induction d y rule: year_search.induct)
  case (1 d y)
  show ?case
  proof (cases "DayFromYear (y + 1) \<le> d")
    case True
    with "1.IH" have "DayFromYear (year_search d (y + 1)) \<le> d \<and>
        d < DayFromYear (year_search d (y + 1) + 1)" by simp
    moreover have "year_search d y = year_search d (y + 1)"
      using True by (subst year_search.simps) simp
    ultimately show ?thesis by simp
  next
    case False
    then have "year_search d y = y" by (subst year_search.simps) simp
    with False "1.prems" show ?thesis by simp
  qed
qed

lemma year_unique:
  assumes "DayFromYear y \<le> d" "d < DayFromYear (y + 1)"
    and "DayFromYear y' \<le> d" "d < DayFromYear (y' + 1)"
  shows "y = y'"
proof (rule ccontr)
  assume "y \<noteq> y'"
  then consider "y + 1 \<le> y'" | "y' + 1 \<le> y" by linarith
  then show False
  proof cases
    case 1
    have "0 \<le> 365 * (y' - (y + 1))"
      using 1 by simp
    with DayFromYear_mono_le [OF 1] have "DayFromYear (y + 1) \<le> DayFromYear y'"
      by linarith
    with assms show False by simp
  next
    case 2
    have "0 \<le> 365 * (y - (y' + 1))"
      using 2 by simp
    with DayFromYear_mono_le [OF 2] have "DayFromYear (y' + 1) \<le> DayFromYear y"
      by linarith
    with assms show False by simp
  qed
qed

lemma YearFromTime_iff:
  "YearFromTime t = y \<longleftrightarrow> TimeFromYear y \<le> t \<and> t < TimeFromYear (y + 1)"
proof -
  let ?d = "Day t"
  let ?Y = "YearFromTime t"
  have Y: "DayFromYear ?Y \<le> ?d \<and> ?d < DayFromYear (?Y + 1)"
    unfolding YearFromTime_def Let_def by (rule year_search_correct [OF year_search_start])
  have day: "k \<le> ?d \<longleftrightarrow> msPerDay * k \<le> t" for k
    unfolding Day_def msPerDay_def by linarith
  have day': "?d < k \<longleftrightarrow> t < msPerDay * k" for k
    unfolding Day_def msPerDay_def by linarith
  show ?thesis
  proof
    assume "?Y = y"
    with Y show "TimeFromYear y \<le> t \<and> t < TimeFromYear (y + 1)"
      by (simp add: TimeFromYear_def day day')
  next
    assume "TimeFromYear y \<le> t \<and> t < TimeFromYear (y + 1)"
    then have "DayFromYear y \<le> ?d" "?d < DayFromYear (y + 1)"
      by (simp_all add: TimeFromYear_def day day')
    with Y show "?Y = y" by (meson year_unique)
  qed
qed

text \<open>
  C7. \<open>getMessagesForYear(Y)\<close> returns exactly the messages of \<open>getAllMessages()\<close>, in
  stored order, whose timestamp is a date and falls in calendar year \<open>Y\<close>: its local time
  is at or after the first millisecond of \<open>Y\<close> and before the first millisecond of
  \<open>Y + 1\<close>. The calendar is the one \<open>getFullYear\<close> reads, the local time of the
  browser. Both boundaries are decided by the two comparisons: the last second of
  December 31 is in \<open>Y\<close>, the first instant of January 1 is in \<open>Y + 1\<close>. The store
  state is any sequence \<open>ms\<close> of messages.
\<close>

theorem getMessagesForYear_filter:
  assumes "getAllMessages ls = Array (map Message ms)"
  shows "getMessagesForYear C (Some y) ls =
     Inr (filter (\<lambda>m. case Date_parse C (timestamp m) of
                   None \<Rightarrow> False
                 | Some t \<Rightarrow> TimeFromYear y \<le> LocalTime C t \<and> LocalTime C t < TimeFromYear (y + 1))
       ms)"
proof -
  have "filter (\<lambda>m. let msgYear = getFullYear C (Date_parse C (timestamp m))
                    in msgYear \<noteq> None \<and> msgYear = Some y) ms =
        filter (\<lambda>m. case Date_parse C (timestamp m) of
                   None \<Rightarrow> False
                 | Some t \<Rightarrow> TimeFromYear y \<le> LocalTime C t \<and> LocalTime C t < TimeFromYear (y + 1)) ms"
    unfolding getFullYear_def Let_def
    by (rule filter_cong) (auto simp: YearFromTime_iff split: option.splits)
  then show ?thesis
    using assms by (simp add: getMessagesForYear_def filter_entries_messages)
qed

lemma TimeFromYear_examples:
  "TimeFromYear 2024 = 1704067200000" "TimeFromYear 2025 = 1735689600000"
  "TimeFromYear 2026 = 1767225600000"
  by (simp_all add: TimeFromYear_def DayFromYear_def msPerDay_def)

lemma example_timestamps:
  "Date_parse utc_clock (timestamp alice_m1) = Some 1735689599000"
  "Date_parse utc_clock (timestamp bob_m1) = Some 1735689600000"
  by (simp_all add: utc_clock_def alice_m1_def bob_m1_def example_message_def js_def)

text \<open>
  The boundary of C7 in UTC: of a message of 2024-12-31 23:59:59 and one of 2025-01-01
  00:00:00, the filter for 2024 returns the first and the filter for 2025 the second.
\<close>

theorem getMessagesForYear_boundary:
  "getAllMessages (fresh_storage\<lparr>item := Some (Json (Array [Message alice_m1, Message bob_m1]))\<rparr>) =
     Array (map Message [alice_m1, bob_m1])
   \<and> getMessagesForYear utc_clock (Some 2024)
       (fresh_storage\<lparr>item := Some (Json (Array [Message alice_m1, Message bob_m1]))\<rparr>) =
      Inr [alice_m1]
   \<and> getMessagesForYear utc_clock (Some 2025)
       (fresh_storage\<lparr>item := Some (Json (Array [Message alice_m1, Message bob_m1]))\<rparr>) =
      Inr [bob_m1]"
proof -
  have all: "getAllMessages
               (fresh_storage\<lparr>item := Some (Json (Array [Message alice_m1, Message bob_m1]))\<rparr>) =
             Array (map Message [alice_m1, bob_m1])"
    by (simp add: getAllMessages_cases fresh_storage_def)
  have local: "LocalTime utc_clock t = t" for t
    by (simp add: LocalTime_def utc_clock_def)
  show ?thesis
    unfolding getMessagesForYear_filter [OF all]
    by (simp add: all example_timestamps local TimeFromYear_examples)
qed

section \<open>Properties of the tiers\<close>

lemma tier_names_distinct:
  "distinct [js ''Red'', js ''Silver'', js ''Gold'', js ''Runic'', js ''White'']"
  by (simp add: js_def)

lemma tier_rank_simps:
  "tier_rank (js ''Red'') = 0"
  "tier_rank (js ''Silver'') = 1"
  "tier_rank (js ''Gold'') = 2"
  "tier_rank (js ''Runic'') = 3"
  "tier_rank (js ''White'') = 4"
  using tier_names_distinct by (simp_all add: tier_rank_def getTierInfo_def)

lemma calculateTier_tier:
  "tier_result.tier (calculateTier c) =
     (if c \<ge> 100000000 then js ''White''
      else if c \<ge> 10000000 then js ''Runic''
      else if c \<ge> 1000000 then js ''Gold''
      else if c \<ge> 100000 then js ''Silver''
      else js ''Red'')"
  by (simp add: calculateTier_def)

text \<open>
  C4. \<open>calculateTier\<close> is non-decreasing in the count, in the order of the threshold
  table, and the tier changes exactly at each threshold: Red at 0 and at 99999, Silver at
  100000, Gold at 1000000, Runic at 10000000, White at 100000000, and still the tier
  below at one less than each threshold.
\<close>

theorem calculateTier_monotone:
  "(c \<le> c' \<longrightarrow>
      tier_rank (tier_result.tier (calculateTier c)) \<le> tier_rank (tier_result.tier (calculateTier c')))
   \<and> tier_result.tier (calculateTier 0) = js ''Red''
   \<and> tier_result.tier (calculateTier 99999) = js ''Red''
   \<and> tier_result.tier (calculateTier 100000) = js ''Silver''
   \<and> tier_result.tier (calculateTier 999999) = js ''Silver''
   \<and> tier_result.tier (calculateTier 1000000) = js ''Gold''
   \<and> tier_result.tier (calculateTier 9999999) = js ''Gold''
   \<and> tier_result.tier (calculateTier 10000000) = js ''Runic''
   \<and> tier_result.tier (calculateTier 99999999) = js ''Runic''
   \<and> tier_result.tier (calculateTier 100000000) = js ''White''"
proof -
  have "tier_rank (tier_result.tier (calculateTier c)) \<le> tier_rank (tier_result.tier (calculateTier c'))"
    if "c \<le> c'"
    using that by (simp add: calculateTier_tier tier_rank_simps)
  then show ?thesis
    by (simp add: calculateTier_tier)
qed

text \<open>An instance of C4 across the first threshold.\<close>

theorem calculateTier_monotone_witness:
  "(99999::int) \<le> 100000
   \<and> tier_rank (tier_result.tier (calculateTier 99999)) \<le> tier_rank (tier_result.tier (calculateTier 100000))
   \<and> tier_rank (tier_result.tier (calculateTier 99999)) = 0
   \<and> tier_rank (tier_result.tier (calculateTier 100000)) = 1"
proof -
  have h: "(99999::int) \<le> 100000"
    by simp
  from calculateTier_monotone [of 99999 100000] h
  have "tier_rank (tier_result.tier (calculateTier 99999)) \<le> tier_rank (tier_result.tier (calculateTier 100000))"
    by blast
  then show ?thesis
    by (simp add: calculateTier_tier tier_rank_simps)
qed

subsection \<open>The quotient of doubles\<close>

lemma round_half_even_error:
  assumes "0 < d"
  shows "2 * \<bar>round_half_even n d * d - n\<bar> \<le> d"
proof -
  have n: "n = (n div d) * d + n mod d"
    by simp
  have r: "0 \<le> n mod d" "n mod d < d"
    using assms by simp_all
  have 1: "(n div d) * d - n = - (n mod d)"
    using n by linarith
  have 2: "(n div d + 1) * d - n = d - n mod d"
    using n by (simp add: algebra_simps)
  show ?thesis
    unfolding round_half_even_def Let_def
    using r by (auto simp: 1 2)
qed

lemma binade_below_correct:
  assumes "0 < a" "a * 2 ^ k0 < b"
  shows "k0 < binade_below a b k0
         \<and> a * 2 ^ (binade_below a b k0 - 1) < b \<and> b \<le> a * 2 ^ binade_below a b k0"
  using assms
proof (induction a b k0 rule: binade_below.induct)
  case (1 a b k)
  have step: "binade_below a b k = binade_below a b (Suc k)"
    using "1.prems" by (subst binade_below.simps) simp
  show ?case
  proof (cases "b \<le> a * 2 ^ Suc k")
    case True
    then have "binade_below a b (Suc k) = Suc k"
      by (subst binade_below.simps) simp
    with step True "1.prems" show ?thesis
      by simp
  next
    case False
    then have "a * 2 ^ Suc k < b"
      by simp
    with "1.IH" "1.prems" have
      "Suc k < binade_below a b (Suc k)
       \<and> a * 2 ^ (binade_below a b (Suc k) - 1) < b \<and> b \<le> a * 2 ^ binade_below a b (Suc k)"
      by simp
    with step show ?thesis
      by simp
  qed
qed


lemma double_div_pos_bounds:
  assumes "0 < a" "a < b"
  shows "0 \<le> double_div_pos a b \<and> double_div_pos a b \<le> 1
         \<and> \<bar>double_div_pos a b - of_int a / of_int b\<bar> \<le> (of_int a / of_int b) / 2 ^ 53"
proof -
  define k where "k = binade_below a b 0"
  define m where "m = round_half_even (a * 2 ^ (52 + k)) b"
  define A B M P Q :: rat where "A = of_int a" and "B = of_int b" and "M = of_int m"
    and "P = 2 ^ (52 + k)" and "Q = 2 ^ 53"
  have b: "0 < b"
    using assms by simp
  have k: "0 < k" "a * 2 ^ (k - 1) < b" "b \<le> a * 2 ^ k"
    using binade_below_correct [of a 0 b] assms by (simp_all add: k_def)
  have AB: "0 < A" "0 < B" "0 < P" "0 < Q"
    using assms by (simp_all add: A_def B_def P_def Q_def)
  have res: "double_div_pos a b = M / P"
    using assms by (simp add: double_div_pos_def Let_def k_def m_def M_def P_def)
  obtain j where j: "k = Suc j"
    using k(1) by (cases k) auto
  have PQ: "P = 2 ^ (k - 1) * Q"
    unfolding P_def Q_def j by (simp add: power_add)
  have PQ': "2 * P = Q * 2 ^ k"
    unfolding P_def Q_def by (simp add: power_add)
  have "2 * \<bar>m * b - a * 2 ^ (52 + k)\<bar> \<le> b"
    unfolding m_def by (rule round_half_even_error [OF b])
  then have "(of_int (2 * \<bar>m * b - a * 2 ^ (52 + k)\<bar>) :: rat) \<le> of_int b"
    by (simp only: of_int_le_iff)
  then have err: "2 * \<bar>M * B - A * P\<bar> \<le> B"
    by (simp add: A_def B_def M_def P_def)
  have low: "B \<le> A * 2 ^ k"
  proof -
    have "(of_int b :: rat) \<le> of_int (a * 2 ^ k)"
      using k(3) by (simp only: of_int_le_iff)
    then show ?thesis
      by (simp add: A_def B_def)
  qed
  have high: "A * P < B * Q"
  proof -
    have "(of_int (a * 2 ^ (k - 1)) :: rat) < of_int b"
      using k(2) by (simp only: of_int_less_iff)
    then have "A * 2 ^ (k - 1) < B"
      by (simp add: A_def B_def)
    then have "A * 2 ^ (k - 1) * Q < B * Q"
      using AB(4) by (rule mult_strict_right_mono)
    then show ?thesis
      by (simp only: PQ mult.assoc)
  qed
  define X where "X = M * B - A * P"
  have X: "2 * \<bar>X\<bar> \<le> B"
    using err by (simp only: X_def)
  have "- B \<le> 2 * X" "2 * X \<le> B"
    using X by linarith+
  then have lower: "- B \<le> 2 * (M * B) - 2 * (A * P)"
    and upper: "2 * (M * B) - 2 * (A * P) \<le> B"
    by (simp_all add: X_def algebra_simps)
  have Mlow: "0 \<le> M"
  proof -
    have "0 \<le> A * P"
      using AB by simp
    with lower have "0 \<le> 2 * (M * B) + B"
      by linarith
    moreover have "(2 * M + 1) * B = 2 * (M * B) + B"
      by (simp add: algebra_simps)
    ultimately have "0 \<le> (2 * M + 1) * B"
      by simp
    then have "0 \<le> 2 * M + 1"
      using AB(2) by (simp add: zero_le_mult_iff)
    then have "(0::rat) \<le> of_int (2 * m + 1)"
      by (simp add: M_def)
    then have "0 \<le> 2 * m + 1"
      by (simp only: of_int_0_le_iff)
    then have "0 \<le> m"
      by simp
    then show ?thesis
      by (simp add: M_def)
  qed
  have Mhigh: "M \<le> Q"
  proof -
    have "2 * (M * B) < B + 2 * (B * Q)"
      using upper high by linarith
    moreover have "(2 * Q + 1) * B = B + 2 * (B * Q)" "(2 * M) * B = 2 * (M * B)"
      by (simp_all add: algebra_simps)
    ultimately have "(2 * M) * B < (2 * Q + 1) * B"
      by simp
    then have "2 * M < 2 * Q + 1"
      using AB(2) by (simp only: mult_less_cancel_right_pos)
    then have "(of_int (2 * m) :: rat) < of_int (2 * 2 ^ 53 + 1)"
      by (simp add: M_def Q_def)
    then have "2 * m < 2 * 2 ^ 53 + 1"
      by (simp only: of_int_less_iff)
    then have "m \<le> 2 ^ 53"
      by simp
    then have "(of_int m :: rat) \<le> of_int (2 ^ 53)"
      by (simp only: of_int_le_iff)
    then show ?thesis
      by (simp add: M_def Q_def)
  qed
  have QP: "Q \<le> P"
  proof -
    have "(2::rat) ^ 53 \<le> 2 ^ (52 + k)"
      using k(1) by (intro power_increasing) simp_all
    then show ?thesis
      by (simp only: P_def Q_def)
  qed
  have 1: "0 \<le> M / P"
    using Mlow AB by simp
  have 2: "M / P \<le> 1"
  proof -
    have "M \<le> P"
      using Mhigh QP by simp
    then show ?thesis
      using AB(3) by (simp add: field_simps)
  qed
  have 3: "\<bar>M / P - A / B\<bar> \<le> (A / B) / Q"
  proof -
    have "M / P - A / B = (M * B - A * P) / (P * B)"
      using AB by (simp add: field_simps)
    then have "\<bar>M / P - A / B\<bar> = \<bar>M * B - A * P\<bar> / (P * B)"
      using AB by (simp add: abs_mult)
    also have "\<dots> \<le> (B / 2) / (P * B)"
      using err AB by (intro divide_right_mono) simp_all
    also have "\<dots> = 1 / (2 * P)"
      using AB by simp
    also have "\<dots> = (1 / 2 ^ k) / Q"
      by (simp only: PQ') simp
    also have "\<dots> \<le> (A / B) / Q"
    proof -
      have "1 / 2 ^ k \<le> A / B"
        using low AB by (simp add: field_simps)
      then show ?thesis
        using AB(4) by (intro divide_right_mono) simp_all
    qed
    finally show ?thesis .
  qed
  from 1 2 3 show ?thesis
    unfolding res A_def B_def Q_def by simp
qed

lemma double_div_bounds:
  assumes "0 \<le> a" "a < b"
  shows "0 \<le> double_div a b \<and> double_div a b \<le> 1
         \<and> \<bar>double_div a b - of_int a / of_int b\<bar> \<le> (of_int a / of_int b) / 2 ^ 53"
proof (cases "a = 0")
  case True
  then show ?thesis
    by (simp add: double_div_def)
next
  case False
  with assms have "0 < a" "0 < b"
    by simp_all
  then have "double_div a b = double_div_pos a b"
    by (simp add: double_div_def)
  with double_div_pos_bounds [OF \<open>0 < a\<close> assms(2)] show ?thesis
    by simp
qed


lemma double_div_50000: "double_div 50000 900000 = 2001599834386887 / 36028797018963968"
  by code_simp

lemma clamp_double_div:
  assumes "lo \<le> c" "c < hi"
  shows "min (max (double_div (c - lo) (hi - lo)) 0) 1 = double_div (c - lo) (hi - lo)"
  using double_div_bounds [of "c - lo" "hi - lo"] assms by simp

subsection \<open>The progress to the next tier\<close>

lemma progress_loop_4: "progress_loop count 4 =
   \<lparr>currentTier = js ''White'', nextTier = None, progress = 1, remaining = 0\<rparr>"
  by (subst progress_loop.simps) (simp add: getTierInfo_def Let_def eval_nat_numeral)

lemma progress_loop_3: "progress_loop (Some c) 3 =
   (if c < 100000000 then
      \<lparr>currentTier = js ''Runic'', nextTier = Some (js ''White''),
       progress = min (max (double_div (c - 10000000) (100000000 - 10000000)) 0) 1,
       remaining = 100000000 - c\<rparr>
    else progress_loop (Some c) 4)"
  by (subst progress_loop.simps) (simp add: getTierInfo_def Let_def eval_nat_numeral)

lemma progress_loop_2: "progress_loop (Some c) 2 =
   (if c < 10000000 then
      \<lparr>currentTier = js ''Gold'', nextTier = Some (js ''Runic''),
       progress = min (max (double_div (c - 1000000) (10000000 - 1000000)) 0) 1,
       remaining = 10000000 - c\<rparr>
    else progress_loop (Some c) 3)"
  by (subst progress_loop.simps) (simp add: getTierInfo_def Let_def eval_nat_numeral)

lemma progress_loop_1: "progress_loop (Some c) (Suc 0) =
   (if c < 1000000 then
      \<lparr>currentTier = js ''Silver'', nextTier = Some (js ''Gold''),
       progress = min (max (double_div (c - 100000) (1000000 - 100000)) 0) 1,
       remaining = 1000000 - c\<rparr>
    else progress_loop (Some c) 2)"
  by (subst progress_loop.simps) (simp add: getTierInfo_def Let_def eval_nat_numeral)

lemma progress_loop_0: "progress_loop (Some c) 0 =
   (if c < 100000 then
      \<lparr>currentTier = js ''Red'', nextTier = Some (js ''Silver''),
       progress = min (max (double_div (c - 0) (100000 - 0)) 0) 1,
       remaining = 100000 - c\<rparr>
    else progress_loop (Some c) (Suc 0))"
  by (subst progress_loop.simps) (simp add: getTierInfo_def Let_def eval_nat_numeral)

lemma progress_loop_cases:
  assumes "0 \<le> c"
  shows "currentTier (progress_loop (Some c) 0) = tier_result.tier (calculateTier c)
    \<and> 0 \<le> progress (progress_loop (Some c) 0) \<and> progress (progress_loop (Some c) 0) \<le> 1
    \<and> (c \<ge> 100000000 \<longrightarrow> nextTier (progress_loop (Some c) 0) = None
          \<and> progress (progress_loop (Some c) 0) = 1 \<and> remaining (progress_loop (Some c) 0) = 0)
    \<and> (c < 100000000 \<longrightarrow>
          (\<exists>i. Suc i < length getTierInfo
             \<and> tier_info.threshold (getTierInfo ! i) \<le> c
             \<and> c < tier_info.threshold (getTierInfo ! Suc i)
             \<and> currentTier (progress_loop (Some c) 0) = tier_info.tier (getTierInfo ! i)
             \<and> nextTier (progress_loop (Some c) 0) = Some (tier_info.tier (getTierInfo ! Suc i))
             \<and> progress (progress_loop (Some c) 0) =
                 double_div (c - tier_info.threshold (getTierInfo ! i))
                   (tier_info.threshold (getTierInfo ! Suc i) - tier_info.threshold (getTierInfo ! i))
             \<and> \<bar>progress (progress_loop (Some c) 0)
                 - of_int (c - tier_info.threshold (getTierInfo ! i))
                   / of_int (tier_info.threshold (getTierInfo ! Suc i) - tier_info.threshold (getTierInfo ! i))\<bar>
               \<le> of_int (c - tier_info.threshold (getTierInfo ! i))
                   / of_int (tier_info.threshold (getTierInfo ! Suc i) - tier_info.threshold (getTierInfo ! i))
                   / 2 ^ 53
             \<and> remaining (progress_loop (Some c) 0) = tier_info.threshold (getTierInfo ! Suc i) - c))"
proof -
  have step: "\<exists>i. Suc i < length getTierInfo
             \<and> tier_info.threshold (getTierInfo ! i) \<le> c
             \<and> c < tier_info.threshold (getTierInfo ! Suc i)
             \<and> currentTier p = tier_info.tier (getTierInfo ! i)
             \<and> nextTier p = Some (tier_info.tier (getTierInfo ! Suc i))
             \<and> progress p =
                 double_div (c - tier_info.threshold (getTierInfo ! i))
                   (tier_info.threshold (getTierInfo ! Suc i) - tier_info.threshold (getTierInfo ! i))
             \<and> \<bar>progress p
                 - of_int (c - tier_info.threshold (getTierInfo ! i))
                   / of_int (tier_info.threshold (getTierInfo ! Suc i) - tier_info.threshold (getTierInfo ! i))\<bar>
               \<le> of_int (c - tier_info.threshold (getTierInfo ! i))
                   / of_int (tier_info.threshold (getTierInfo ! Suc i) - tier_info.threshold (getTierInfo ! i))
                   / 2 ^ 53
             \<and> remaining p = tier_info.threshold (getTierInfo ! Suc i) - c"
    and range: "0 \<le> progress p \<and> progress p \<le> 1"
    if i: "Suc i < length getTierInfo"
      and lo: "tier_info.threshold (getTierInfo ! i) = lo"
      and hi: "tier_info.threshold (getTierInfo ! Suc i) = hi"
      and names: "tier_info.tier (getTierInfo ! i) = cur" "tier_info.tier (getTierInfo ! Suc i) = nxt"
      and c: "lo \<le> c" "c < hi"
      and p: "p = \<lparr>currentTier = cur, nextTier = Some nxt,
                   progress = min (max (double_div (c - lo) (hi - lo)) 0) 1, remaining = hi - c\<rparr>"
    for i lo hi cur nxt p
  proof -
    have q: "progress p = double_div (c - lo) (hi - lo)"
      unfolding p using clamp_double_div [OF c] by simp
    have b: "0 \<le> double_div (c - lo) (hi - lo)" "double_div (c - lo) (hi - lo) \<le> 1"
      "\<bar>double_div (c - lo) (hi - lo) - of_int (c - lo) / of_int (hi - lo)\<bar>
         \<le> of_int (c - lo) / of_int (hi - lo) / 2 ^ 53"
      using double_div_bounds [of "c - lo" "hi - lo"] c by simp_all
    show "0 \<le> progress p \<and> progress p \<le> 1"
      unfolding q using b by simp
    have "Suc i < length getTierInfo
             \<and> tier_info.threshold (getTierInfo ! i) \<le> c
             \<and> c < tier_info.threshold (getTierInfo ! Suc i)
             \<and> currentTier p = tier_info.tier (getTierInfo ! i)
             \<and> nextTier p = Some (tier_info.tier (getTierInfo ! Suc i))
             \<and> progress p =
                 double_div (c - tier_info.threshold (getTierInfo ! i))
                   (tier_info.threshold (getTierInfo ! Suc i) - tier_info.threshold (getTierInfo ! i))
             \<and> \<bar>progress p
                 - of_int (c - tier_info.threshold (getTierInfo ! i))
                   / of_int (tier_info.threshold (getTierInfo ! Suc i) - tier_info.threshold (getTierInfo ! i))\<bar>
               \<le> of_int (c - tier_info.threshold (getTierInfo ! i))
                   / of_int (tier_info.threshold (getTierInfo ! Suc i) - tier_info.threshold (getTierInfo ! i))
                   / 2 ^ 53
             \<and> remaining p = tier_info.threshold (getTierInfo ! Suc i) - c"
      unfolding lo hi names q using i c b(3) by (simp only: p progress_result.simps simp_thms)
    then show "\<exists>i. Suc i < length getTierInfo
             \<and> tier_info.threshold (getTierInfo ! i) \<le> c
             \<and> c < tier_info.threshold (getTierInfo ! Suc i)
             \<and> currentTier p = tier_info.tier (getTierInfo ! i)
             \<and> nextTier p = Some (tier_info.tier (getTierInfo ! Suc i))
             \<and> progress p =
                 double_div (c - tier_info.threshold (getTierInfo ! i))
                   (tier_info.threshold (getTierInfo ! Suc i) - tier_info.threshold (getTierInfo ! i))
             \<and> \<bar>progress p
                 - of_int (c - tier_info.threshold (getTierInfo ! i))
                   / of_int (tier_info.threshold (getTierInfo ! Suc i) - tier_info.threshold (getTierInfo ! i))\<bar>
               \<le> of_int (c - tier_info.threshold (getTierInfo ! i))
                   / of_int (tier_info.threshold (getTierInfo ! Suc i) - tier_info.threshold (getTierInfo ! i))
                   / 2 ^ 53
             \<and> remaining p = tier_info.threshold (getTierInfo ! Suc i) - c"
      by (rule exI)
  qed
  have table: "length getTierInfo = 5"
    "tier_info.threshold (getTierInfo ! 0) = 0" "tier_info.tier (getTierInfo ! 0) = js ''Red''"
    "tier_info.threshold (getTierInfo ! Suc 0) = 100000" "tier_info.tier (getTierInfo ! Suc 0) = js ''Silver''"
    "tier_info.threshold (getTierInfo ! Suc (Suc 0)) = 1000000"
    "tier_info.tier (getTierInfo ! Suc (Suc 0)) = js ''Gold''"
    "tier_info.threshold (getTierInfo ! Suc (Suc (Suc 0))) = 10000000"
    "tier_info.tier (getTierInfo ! Suc (Suc (Suc 0))) = js ''Runic''"
    "tier_info.threshold (getTierInfo ! Suc (Suc (Suc (Suc 0)))) = 100000000"
    "tier_info.tier (getTierInfo ! Suc (Suc (Suc (Suc 0)))) = js ''White''"
    by (simp_all add: getTierInfo_def)
  consider (red) "c < 100000" | (silver) "100000 \<le> c" "c < 1000000"
    | (gold) "1000000 \<le> c" "c < 10000000" | (runic) "10000000 \<le> c" "c < 100000000"
    | (white) "100000000 \<le> c"
    by linarith
  then show ?thesis
  proof cases
    case red
    have p: "progress_loop (Some c) 0 =
        \<lparr>currentTier = js ''Red'', nextTier = Some (js ''Silver''),
         progress = min (max (double_div (c - 0) (100000 - 0)) 0) 1, remaining = 100000 - c\<rparr>"
      using red by (simp add: progress_loop_0)
    have i: "Suc 0 < length getTierInfo"
      by (simp add: table)
    note s = step [OF i table(2) table(4) table(3) table(5) assms red p]
      and r = range [OF i table(2) table(4) table(3) table(5) assms red p]
    have t: "currentTier (progress_loop (Some c) 0) = tier_result.tier (calculateTier c)"
      using red by (simp add: p calculateTier_tier)
    from s r t red show ?thesis
      by simp
  next
    case silver
    have p: "progress_loop (Some c) 0 =
        \<lparr>currentTier = js ''Silver'', nextTier = Some (js ''Gold''),
         progress = min (max (double_div (c - 100000) (1000000 - 100000)) 0) 1,
         remaining = 1000000 - c\<rparr>"
      using silver by (simp add: progress_loop_0 progress_loop_1)
    have i: "Suc (Suc 0) < length getTierInfo"
      by (simp add: table)
    note s = step [OF i table(4) table(6) table(5) table(7) silver p]
      and r = range [OF i table(4) table(6) table(5) table(7) silver p]
    have t: "currentTier (progress_loop (Some c) 0) = tier_result.tier (calculateTier c)"
      using silver by (simp add: p calculateTier_tier)
    from s r t silver show ?thesis
      by simp
  next
    case gold
    have p: "progress_loop (Some c) 0 =
        \<lparr>currentTier = js ''Gold'', nextTier = Some (js ''Runic''),
         progress = min (max (double_div (c - 1000000) (10000000 - 1000000)) 0) 1,
         remaining = 10000000 - c\<rparr>"
      using gold by (simp add: progress_loop_0 progress_loop_1 progress_loop_2)
    have i: "Suc (Suc (Suc 0)) < length getTierInfo"
      by (simp add: table)
    note s = step [OF i table(6) table(8) table(7) table(9) gold p]
      and r = range [OF i table(6) table(8) table(7) table(9) gold p]
    have t: "currentTier (progress_loop (Some c) 0) = tier_result.tier (calculateTier c)"
      using gold by (simp add: p calculateTier_tier)
    from s r t gold show ?thesis
      by simp
  next
    case runic
    have p: "progress_loop (Some c) 0 =
        \<lparr>currentTier = js ''Runic'', nextTier = Some (js ''White''),
         progress = min (max (double_div (c - 10000000) (100000000 - 10000000)) 0) 1,
         remaining = 100000000 - c\<rparr>"
      using runic by (simp add: progress_loop_0 progress_loop_1 progress_loop_2 progress_loop_3)
    have i: "Suc (Suc (Suc (Suc 0))) < length getTierInfo"
      by (simp add: table)
    note s = step [OF i table(8) table(10) table(9) table(11) runic p]
      and r = range [OF i table(8) table(10) table(9) table(11) runic p]
    have t: "currentTier (progress_loop (Some c) 0) = tier_result.tier (calculateTier c)"
      using runic by (simp add: p calculateTier_tier)
    from s r t runic show ?thesis
      by simp
  next
    case white
    have p: "progress_loop (Some c) 0 =
        \<lparr>currentTier = js ''White'', nextTier = None, progress = 1, remaining = 0\<rparr>"
      using white
      by (simp add: progress_loop_0 progress_loop_1 progress_loop_2 progress_loop_3 progress_loop_4)
    show ?thesis
      using white by (simp add: p calculateTier_tier)
  qed
qed

text \<open>
  C9. \<open>getProgressToNextTier\<close> returns the current tier, the next tier or none, a
  fraction in \<open>[0, 1]\<close> and the remaining count, for the number \<open>n\<close> of stored messages.
  The current tier is the one \<open>calculateTier\<close> gives. Below the last threshold the
  fraction is the linear interpolation between the thresholds of the current and the
  next tier as the division of doubles computes it, the double nearest to the exact
  quotient and within \<open>2^-53\<close> of it in relative terms, and the remaining count is the
  distance to the next threshold; from the last threshold on, the next tier is none, the
  fraction is 1 and nothing remains.
\<close>

theorem getProgressToNextTier_result:
  assumes "getMessageCount ls = Inr (Some n)"
  shows "\<exists>p. getProgressToNextTier ls = Inr p
       \<and> currentTier p = tier_result.tier (calculateTier (int n))
       \<and> 0 \<le> progress p \<and> progress p \<le> 1
       \<and> (int n \<ge> 100000000 \<longrightarrow> nextTier p = None \<and> progress p = 1 \<and> remaining p = 0)
       \<and> (int n < 100000000 \<longrightarrow>
            (\<exists>i. Suc i < length getTierInfo
               \<and> tier_info.threshold (getTierInfo ! i) \<le> int n
               \<and> int n < tier_info.threshold (getTierInfo ! Suc i)
               \<and> currentTier p = tier_info.tier (getTierInfo ! i)
               \<and> nextTier p = Some (tier_info.tier (getTierInfo ! Suc i))
               \<and> progress p =
                   double_div (int n - tier_info.threshold (getTierInfo ! i))
                     (tier_info.threshold (getTierInfo ! Suc i) - tier_info.threshold (getTierInfo ! i))
               \<and> \<bar>progress p
                   - of_int (int n - tier_info.threshold (getTierInfo ! i))
                     / of_int (tier_info.threshold (getTierInfo ! Suc i)
                                - tier_info.threshold (getTierInfo ! i))\<bar>
                 \<le> of_int (int n - tier_info.threshold (getTierInfo ! i))
                     / of_int (tier_info.threshold (getTierInfo ! Suc i)
                                - tier_info.threshold (getTierInfo ! i))
                     / 2 ^ 53
               \<and> remaining p = tier_info.threshold (getTierInfo ! Suc i) - int n))"
proof -
  have "getProgressToNextTier ls = Inr (progress_loop (Some (int n)) 0)"
    using assms by (simp add: getProgressToNextTier_def)
  moreover have "0 \<le> int n"
    by simp
  note progress_loop_cases [OF this]
  ultimately show ?thesis
    by blast
qed

lemma getMessageCount_crowded: "getMessageCount (crowded_storage n) = Inr (Some n)"
  by (simp add: getMessageCount_def getAllMessages_cases crowded_storage_def fresh_storage_def)

text \<open>
  Instances of C9: a store of 100000000 messages, and a store of 150000, where the
  fraction is the double \<open>0.05555555555555555\<close>, which is not \<open>1 / 18\<close>.
\<close>

theorem getProgressToNextTier_result_witness:
  "getMessageCount (crowded_storage 100000000) = Inr (Some 100000000)
   \<and> getProgressToNextTier (crowded_storage 100000000) =
       Inr \<lparr>currentTier = js ''White'', nextTier = None, progress = 1, remaining = 0\<rparr>
   \<and> getMessageCount (crowded_storage 150000) = Inr (Some 150000)
   \<and> getProgressToNextTier (crowded_storage 150000) =
       Inr \<lparr>currentTier = js ''Silver'', nextTier = Some (js ''Gold''),
            progress = 2001599834386887 / 36028797018963968, remaining = 850000\<rparr>"
proof -
  obtain p where p: "getProgressToNextTier (crowded_storage 100000000) = Inr p"
    "nextTier p = None" "progress p = 1" "remaining p = 0"
    "currentTier p = tier_result.tier (calculateTier (int 100000000))"
    using getProgressToNextTier_result [OF getMessageCount_crowded, of 100000000] by auto
  have "p = \<lparr>currentTier = js ''White'', nextTier = None, progress = 1, remaining = 0\<rparr>"
    using p(2-5) by (cases p) (simp add: calculateTier_tier)
  with p(1) have full: "getProgressToNextTier (crowded_storage 100000000) =
       Inr \<lparr>currentTier = js ''White'', nextTier = None, progress = 1, remaining = 0\<rparr>"
    by simp
  have "getProgressToNextTier (crowded_storage 150000) =
       Inr \<lparr>currentTier = js ''Silver'', nextTier = Some (js ''Gold''),
            progress = 2001599834386887 / 36028797018963968, remaining = 850000\<rparr>"
    by (simp add: getProgressToNextTier_def getMessageCount_crowded progress_loop_0
          progress_loop_1 double_div_50000)
  with full show ?thesis
    by (simp add: getMessageCount_crowded)
qed

section \<open>Properties of the node systems\<close>

lemma random_frame [simp]:
  "scene (snd (random M st)) = scene st"
  "meshes (snd (random M st)) = meshes st"
  "nodes (snd (random M st)) = nodes st"
  by (simp_all add: random_def)

lemma animateBirth_frame [simp]:
  "scene (snd (animateBirth M mesh st)) = scene st"
  "meshes (snd (animateBirth M mesh st)) = meshes st"
  "nodes (snd (animateBirth M mesh st)) = nodes st"
  "userData.messageId (Mesh.userData (fst (animateBirth M mesh st))) =
     userData.messageId (Mesh.userData mesh)"
  by (simp_all add: animateBirth_def now_def Let_def split_def)

lemma createMaterial_treePart_frame [simp]:
  "scene (snd (createMaterial_treePart M g st)) = scene st"
  "meshes (snd (createMaterial_treePart M g st)) = meshes st"
  "nodes (snd (createMaterial_treePart M g st)) = nodes st"
  by (simp_all add: createMaterial_treePart_def Let_def split_def)

lemma addNode_treePart_present:
  "meshes st (message_id msg) \<noteq> None \<Longrightarrow> addNode_treePart M msg st = (None, st)"
  by (simp add: addNode_treePart_def)

lemma addNode_treePart_absent:
  assumes "meshes st (message_id msg) = None"
  shows "\<exists>mesh. fst (addNode_treePart M msg st) = Some mesh
           \<and> userData.messageId (Mesh.userData mesh) = message_id msg
           \<and> scene (snd (addNode_treePart M msg st)) = scene st @ [mesh]
           \<and> meshes (snd (addNode_treePart M msg st)) = (meshes st)(message_id msg \<mapsto> mesh)"
  using assms
  by (simp add: addNode_treePart_def Let_def split_def split: option.splits)

lemma live_nodes_new: "live_nodes k (new_NodeSystem M) = 0"
  by (simp add: live_nodes_def new_NodeSystem_def)

lemma meshes_new: "meshes (new_NodeSystem M) k = None"
  by (simp add: new_NodeSystem_def)

lemma addNode_treePart_inv:
  assumes "\<forall>k. live_nodes k st = (if meshes st k = None then 0 else 1)"
  shows "\<forall>k. live_nodes k (snd (addNode_treePart M msg st)) =
               (if meshes (snd (addNode_treePart M msg st)) k = None then 0 else 1)"
proof (cases "meshes st (message_id msg) = None")
  case False
  then show ?thesis
    using assms by (simp add: addNode_treePart_present)
next
  case True
  from addNode_treePart_absent [OF True, of M] obtain mesh where
    m: "userData.messageId (Mesh.userData mesh) = message_id msg"
       "scene (snd (addNode_treePart M msg st)) = scene st @ [mesh]"
       "meshes (snd (addNode_treePart M msg st)) = (meshes st)(message_id msg \<mapsto> mesh)"
    by blast
  show ?thesis
  proof
    fix k
    have "live_nodes k (snd (addNode_treePart M msg st)) =
            live_nodes k st + (if message_id msg = k then 1 else 0)"
      using m by (simp add: live_nodes_def)
    then show "live_nodes k (snd (addNode_treePart M msg st)) =
               (if meshes (snd (addNode_treePart M msg st)) k = None then 0 else 1)"
      using assms True m by auto
  qed
qed

lemma loadNodes_treePart_inv:
  assumes "\<forall>k. live_nodes k st = (if meshes st k = None then 0 else 1)"
  shows "\<forall>k. live_nodes k (loadNodes_treePart M msgs st) =
               (if meshes (loadNodes_treePart M msgs st) k = None then 0 else 1)"
  using assms
proof (induction msgs arbitrary: st)
  case Nil
  then show ?case by simp
next
  case (Cons msg msgs)
  show ?case
    unfolding loadNodes_treePart.simps
    by (rule Cons.IH [OF addNode_treePart_inv [OF Cons.prems]])
qed

lemma addNode_treePart_meshes:
  "meshes (snd (addNode_treePart M msg st)) (message_id msg) \<noteq> None"
proof (cases "meshes st (message_id msg) = None")
  case False
  then show ?thesis by (simp add: addNode_treePart_present)
next
  case True
  from addNode_treePart_absent [OF True, of M] show ?thesis by auto
qed

lemma funpow_fixed: "f x = x \<Longrightarrow> (f ^^ n) x = x"
  by (induction n) simp_all

lemma createMaterial_emotion_frame [simp]:
  "scene (snd (createMaterial_emotion M e st)) = scene st"
  "meshes (snd (createMaterial_emotion M e st)) = meshes st"
  "nodes (snd (createMaterial_emotion M e st)) = nodes st"
  by (simp_all add: createMaterial_emotion_def Let_def split_def split: property.splits)

lemma createGeometry_emotion_error:
  "(\<exists>g. createGeometry_emotion M e = Inr g) \<longleftrightarrow> EMOTION_CONFIG_get e \<noteq> Undefined"
  by (simp add: createGeometry_emotion_def split: property.splits)

lemma createMaterial_emotion_error:
  "(\<exists>u. fst (createMaterial_emotion M e st) = Inr u) \<longleftrightarrow> EMOTION_CONFIG_get e \<noteq> Undefined"
  by (simp add: createMaterial_emotion_def Let_def split_def split: property.splits)

lemma addNode_emotion_present:
  "meshes st (message_id msg) \<noteq> None \<Longrightarrow> addNode_emotion M msg st = (Inr None, st)"
  by (simp add: addNode_emotion_def)

lemma addNode_emotion_undefined:
  assumes "meshes st (message_id msg) = None" "EMOTION_CONFIG_get (emotion msg) = Undefined"
  shows "fst (addNode_emotion M msg st) = Inl TypeError
         \<and> scene (snd (addNode_emotion M msg st)) = scene st
         \<and> meshes (snd (addNode_emotion M msg st)) = meshes st"
  using assms
  by (simp add: addNode_emotion_def createGeometry_emotion_def Let_def split_def
        split: option.splits)

lemma addNode_emotion_absent:
  assumes "meshes st (message_id msg) = None" "EMOTION_CONFIG_get (emotion msg) \<noteq> Undefined"
  shows "\<exists>mesh. fst (addNode_emotion M msg st) = Inr (Some mesh)
           \<and> userData.messageId (Mesh.userData mesh) = message_id msg
           \<and> scene (snd (addNode_emotion M msg st)) = scene st @ [mesh]
           \<and> meshes (snd (addNode_emotion M msg st)) = (meshes st)(message_id msg \<mapsto> mesh)"
proof -
  obtain g where g: "createGeometry_emotion M (emotion msg) = Inr g"
    using assms(2) createGeometry_emotion_error by blast
  have u: "\<exists>u. fst (createMaterial_emotion M (emotion msg) s) = Inr u" for s
    using assms(2) createMaterial_emotion_error by blast
  show ?thesis
  proof (cases "node_position msg")
    case None
    obtain p h where ph: "getNodePosition_canopy M (userName msg) (message_id msg) (cells st) = (p, h)"
      by (cases "getNodePosition_canopy M (userName msg) (message_id msg) (cells st)")
    obtain u1 s1 where us: "createMaterial_emotion M (emotion msg) (st\<lparr>NodeSystem.cells := h\<rparr>) = (Inr u1, s1)"
      using u [of "st\<lparr>NodeSystem.cells := h\<rparr>"]
      by (cases "createMaterial_emotion M (emotion msg) (st\<lparr>NodeSystem.cells := h\<rparr>)") auto
    have s1: "scene s1 = scene st" "meshes s1 = meshes st"
      using createMaterial_emotion_frame [of M "emotion msg" "st\<lparr>NodeSystem.cells := h\<rparr>"] us by simp_all
    show ?thesis
      using assms None
      by (cases "EMOTION_CONFIG_get (emotion msg)")
         (simp_all add: addNode_emotion_def g ph us s1 Let_def split_def)
  next
    case (Some p)
    obtain u1 s1 where us: "createMaterial_emotion M (emotion msg) st = (Inr u1, s1)"
      using u [of st] by (cases "createMaterial_emotion M (emotion msg) st") auto
    have s1: "scene s1 = scene st" "meshes s1 = meshes st"
      using createMaterial_emotion_frame [of M "emotion msg" st] us by simp_all
    show ?thesis
      using assms Some
      by (cases "EMOTION_CONFIG_get (emotion msg)")
         (simp_all add: addNode_emotion_def g us s1 Let_def split_def)
  qed
qed

lemma addNode_emotion_inv:
  assumes "\<forall>k. live_nodes k st = (if meshes st k = None then 0 else 1)"
  shows "\<forall>k. live_nodes k (snd (addNode_emotion M msg st)) =
               (if meshes (snd (addNode_emotion M msg st)) k = None then 0 else 1)"
proof -
  consider (present) "meshes st (message_id msg) \<noteq> None"
    | (undefined) "meshes st (message_id msg) = None" "EMOTION_CONFIG_get (emotion msg) = Undefined"
    | (absent) "meshes st (message_id msg) = None" "EMOTION_CONFIG_get (emotion msg) \<noteq> Undefined"
    by blast
  then show ?thesis
  proof cases
    case present
    then show ?thesis
      using assms by (simp add: addNode_emotion_present)
  next
    case undefined
    from addNode_emotion_undefined [OF this, of M] show ?thesis
      using assms by (simp add: live_nodes_def)
  next
    case absent
    from addNode_emotion_absent [OF this, of M] obtain mesh where
      m: "userData.messageId (Mesh.userData mesh) = message_id msg"
         "scene (snd (addNode_emotion M msg st)) = scene st @ [mesh]"
         "meshes (snd (addNode_emotion M msg st)) = (meshes st)(message_id msg \<mapsto> mesh)"
      by blast
    show ?thesis
    proof
      fix k
      have "live_nodes k (snd (addNode_emotion M msg st)) =
              live_nodes k st + (if message_id msg = k then 1 else 0)"
        using m by (simp add: live_nodes_def)
      then show "live_nodes k (snd (addNode_emotion M msg st)) =
                 (if meshes (snd (addNode_emotion M msg st)) k = None then 0 else 1)"
        using assms absent m by auto
    qed
  qed
qed

lemma loadNodes_emotion_inv:
  assumes "\<forall>k. live_nodes k st = (if meshes st k = None then 0 else 1)"
  shows "\<forall>k. live_nodes k (snd (loadNodes_emotion M msgs st)) =
               (if meshes (snd (loadNodes_emotion M msgs st)) k = None then 0 else 1)"
  using assms
proof (induction msgs arbitrary: st)
  case Nil
  then show ?case by simp
next
  case (Cons msg msgs)
  obtain r st1 where a: "addNode_emotion M msg st = (r, st1)"
    by (cases "addNode_emotion M msg st")
  have inv1: "\<forall>k. live_nodes k st1 = (if meshes st1 k = None then 0 else 1)"
    using addNode_emotion_inv [OF Cons.prems, of M msg] a by simp
  show ?case
  proof (cases r)
    case (Inl err)
    then show ?thesis using a inv1 by simp
  next
    case (Inr mesh)
    then have "loadNodes_emotion M (msg # msgs) st = loadNodes_emotion M msgs st1"
      using a by simp
    then show ?thesis using Cons.IH [OF inv1] by simp
  qed
qed

lemma addNode_emotion_meshes:
  assumes "EMOTION_CONFIG_get (emotion msg) \<noteq> Undefined \<or> meshes st (message_id msg) \<noteq> None"
  shows "meshes (snd (addNode_emotion M msg st)) (message_id msg) \<noteq> None"
proof (cases "meshes st (message_id msg) = None")
  case False
  then show ?thesis by (simp add: addNode_emotion_present)
next
  case True
  with assms have "EMOTION_CONFIG_get (emotion msg) \<noteq> Undefined" by simp
  from addNode_emotion_absent [OF True this, of M] show ?thesis by auto
qed

lemma EMOTION_CONFIG_get_keys:
  "EMOTION_CONFIG_get (Some (js ''joy'')) \<noteq> Undefined"
  "EMOTION_CONFIG_get (Some (js ''love'')) \<noteq> Undefined"
  "EMOTION_CONFIG_get (Some (js ''sadness'')) \<noteq> Undefined"
  "EMOTION_CONFIG_get (Some (js ''anger'')) \<noteq> Undefined"
  "EMOTION_CONFIG_get (Some (js ''confusion'')) \<noteq> Undefined"
  "EMOTION_CONFIG_get (Some (js ''secret'')) \<noteq> Undefined"
  "EMOTION_CONFIG_get (Some (js ''excitement'')) \<noteq> Undefined"
  by (simp_all add: EMOTION_CONFIG_get_def EMOTION_CONFIG_def js_def)

lemma EMOTION_CONFIG_get_fear: "EMOTION_CONFIG_get (Some (js ''fear'')) = Undefined"
  by (simp add: EMOTION_CONFIG_get_def EMOTION_CONFIG_def Object_prototype_def js_def)

lemma EMOTION_CONFIG_get_missing: "EMOTION_CONFIG_get None = Undefined"
  by (simp add: EMOTION_CONFIG_get_def EMOTION_CONFIG_def Object_prototype_def js_def)

lemma EMOTION_CONFIG_get_toString: "EMOTION_CONFIG_get (Some (js ''toString'')) = Inherited"
  by (simp add: EMOTION_CONFIG_get_def EMOTION_CONFIG_def Object_prototype_def js_def)

lemma example_emotions:
  "emotion alice_m1 = Some (js ''joy'')" "emotion bob_m1 = Some (js ''fear'')"
  by (simp_all add: alice_m1_def bob_m1_def example_message_def)

text \<open>
  C8 (as amended). In a node system that has loaded any list of messages, \<open>addNode\<close>
  called with a message leaves exactly one live node for its id, and every later call with
  that id, for this or another message, is a no-op: it returns nothing and changes
  nothing, so no mesh, map entry, random draw or animation frame is added, however often
  it is repeated. In the inscription variant this holds for every message. In the emotion
  variant it holds for every message whose \<open>emotion\<close> has an entry in \<open>EMOTION_CONFIG\<close>
  (or whose id has a node already).
\<close>

theorem addNode_idempotent:
  "(let st = loadNodes_treePart M msgs (new_NodeSystem M);
        st1 = snd (addNode_treePart M msg st)
    in live_nodes (message_id msg) st1 = 1
       \<and> (message_id msg' = message_id msg \<longrightarrow> addNode_treePart M msg' st1 = (None, st1))
       \<and> (\<forall>n. ((\<lambda>s. snd (addNode_treePart M msg s)) ^^ n) st1 = st1))
   \<and> (let st = snd (loadNodes_emotion M msgs (new_NodeSystem M));
           st1 = snd (addNode_emotion M msg st)
       in EMOTION_CONFIG_get (emotion msg) \<noteq> Undefined \<or> meshes st (message_id msg) \<noteq> None \<longrightarrow>
          live_nodes (message_id msg) st1 = 1
          \<and> (message_id msg' = message_id msg \<longrightarrow> addNode_emotion M msg' st1 = (Inr None, st1))
          \<and> (\<forall>n. ((\<lambda>s. snd (addNode_emotion M msg s)) ^^ n) st1 = st1))"
proof (intro conjI)
  let ?st = "loadNodes_treePart M msgs (new_NodeSystem M)"
  let ?st1 = "snd (addNode_treePart M msg ?st)"
  have inv: "\<forall>k. live_nodes k ?st1 = (if meshes ?st1 k = None then 0 else 1)"
    by (intro addNode_treePart_inv loadNodes_treePart_inv) (simp add: live_nodes_new meshes_new)
  have present: "meshes ?st1 (message_id msg) \<noteq> None"
    by (rule addNode_treePart_meshes)
  have "live_nodes (message_id msg) ?st1 = 1"
    using inv present by simp
  moreover have "addNode_treePart M msg' ?st1 = (None, ?st1)" if "message_id msg' = message_id msg"
    using present that by (simp add: addNode_treePart_present)
  moreover have "((\<lambda>s. snd (addNode_treePart M msg s)) ^^ n) ?st1 = ?st1" for n
    using present by (intro funpow_fixed) (simp add: addNode_treePart_present)
  ultimately show "let st = ?st; st1 = snd (addNode_treePart M msg st)
    in live_nodes (message_id msg) st1 = 1
       \<and> (message_id msg' = message_id msg \<longrightarrow> addNode_treePart M msg' st1 = (None, st1))
       \<and> (\<forall>n. ((\<lambda>s. snd (addNode_treePart M msg s)) ^^ n) st1 = st1)"
    by (simp add: Let_def)
next
  let ?st = "snd (loadNodes_emotion M msgs (new_NodeSystem M))"
  let ?st1 = "snd (addNode_emotion M msg ?st)"
  have inv: "\<forall>k. live_nodes k ?st1 = (if meshes ?st1 k = None then 0 else 1)"
    by (intro addNode_emotion_inv loadNodes_emotion_inv) (simp add: live_nodes_new meshes_new)
  {
    assume ok: "EMOTION_CONFIG_get (emotion msg) \<noteq> Undefined \<or> meshes ?st (message_id msg) \<noteq> None"
    have present: "meshes ?st1 (message_id msg) \<noteq> None"
      by (rule addNode_emotion_meshes [OF ok])
    have "live_nodes (message_id msg) ?st1 = 1"
      using inv present by simp
    moreover have "addNode_emotion M msg' ?st1 = (Inr None, ?st1)" if "message_id msg' = message_id msg"
      using present that by (simp add: addNode_emotion_present)
    moreover have "((\<lambda>s. snd (addNode_emotion M msg s)) ^^ n) ?st1 = ?st1" for n
      using present by (intro funpow_fixed) (simp add: addNode_emotion_present)
    ultimately have "live_nodes (message_id msg) ?st1 = 1
          \<and> (message_id msg' = message_id msg \<longrightarrow> addNode_emotion M msg' ?st1 = (Inr None, ?st1))
          \<and> (\<forall>n. ((\<lambda>s. snd (addNode_emotion M msg s)) ^^ n) ?st1 = ?st1)"
      by simp
  }
  then show "let st = ?st; st1 = snd (addNode_emotion M msg st)
       in EMOTION_CONFIG_get (emotion msg) \<noteq> Undefined \<or> meshes st (message_id msg) \<noteq> None \<longrightarrow>
          live_nodes (message_id msg) st1 = 1
          \<and> (message_id msg' = message_id msg \<longrightarrow> addNode_emotion M msg' st1 = (Inr None, st1))
          \<and> (\<forall>n. ((\<lambda>s. snd (addNode_emotion M msg s)) ^^ n) st1 = st1)"
    unfolding Let_def by blast
qed

text \<open>
  An instance of C8 in both variants: Alice's message \<open>m1\<close> with the emotion \<open>joy\<close>,
  then Bob's message with the same id.
\<close>

theorem addNode_idempotent_witness:
  "message_id bob_m1 = message_id alice_m1
   \<and> EMOTION_CONFIG_get (emotion alice_m1) \<noteq> Undefined
   \<and> live_nodes (message_id alice_m1)
        (snd (addNode_treePart exact_engine alice_m1 (new_NodeSystem exact_engine))) = 1
   \<and> addNode_treePart exact_engine bob_m1
        (snd (addNode_treePart exact_engine alice_m1 (new_NodeSystem exact_engine))) =
       (None, snd (addNode_treePart exact_engine alice_m1 (new_NodeSystem exact_engine)))
   \<and> live_nodes (message_id alice_m1)
        (snd (addNode_emotion exact_engine alice_m1 (new_NodeSystem exact_engine))) = 1
   \<and> addNode_emotion exact_engine bob_m1
        (snd (addNode_emotion exact_engine alice_m1 (new_NodeSystem exact_engine))) =
       (Inr None, snd (addNode_emotion exact_engine alice_m1 (new_NodeSystem exact_engine)))"
proof -
  have i: "message_id bob_m1 = message_id alice_m1"
    by (simp add: example_ids)
  have e: "EMOTION_CONFIG_get (emotion alice_m1) \<noteq> Undefined"
    by (simp add: example_emotions EMOTION_CONFIG_get_keys)
  from addNode_idempotent [of exact_engine "[]" alice_m1 bob_m1] i e show ?thesis
    by (simp add: Let_def)
qed

text \<open>
  C8 as stated fails in the emotion variant: for a message whose emotion \<open>fear\<close> is not
  in \<open>EMOTION_CONFIG\<close>, both calls of \<open>addNode\<close> end in a \<open>TypeError\<close>, and there is no
  live node afterwards.
\<close>

theorem addNode_idempotent_counterexample:
  "fst (addNode_emotion exact_engine bob_m1 (new_NodeSystem exact_engine)) = Inl TypeError
   \<and> fst (addNode_emotion exact_engine bob_m1
        (snd (addNode_emotion exact_engine bob_m1 (new_NodeSystem exact_engine)))) = Inl TypeError
   \<and> live_nodes (message_id bob_m1)
        (snd (addNode_emotion exact_engine bob_m1
          (snd (addNode_emotion exact_engine bob_m1 (new_NodeSystem exact_engine))))) = 0"
proof -
  let ?st0 = "new_NodeSystem exact_engine"
  let ?st1 = "snd (addNode_emotion exact_engine bob_m1 ?st0)"
  let ?st2 = "snd (addNode_emotion exact_engine bob_m1 ?st1)"
  have u: "EMOTION_CONFIG_get (emotion bob_m1) = Undefined"
    by (simp add: example_emotions EMOTION_CONFIG_get_fear)
  have m0: "meshes ?st0 (message_id bob_m1) = None"
    by (rule meshes_new)
  note 1 = addNode_emotion_undefined [OF m0 u, of exact_engine]
  have m1: "meshes ?st1 (message_id bob_m1) = None"
    using 1 m0 by simp
  note 2 = addNode_emotion_undefined [OF m1 u, of exact_engine]
  have "scene ?st2 = []"
    using 1 2 by (simp add: new_NodeSystem_def)
  then have "live_nodes (message_id bob_m1) ?st2 = 0"
    by (simp add: live_nodes_def)
  with 1 2 show ?thesis
    by simp
qed

lemma EMOTION_CONFIG_keys:
  "map fst EMOTION_CONFIG =
     [js ''joy'', js ''love'', js ''sadness'', js ''anger'', js ''confusion'', js ''secret'',
      js ''excitement'']"
  by (simp add: EMOTION_CONFIG_def)

lemma createGeometry_treePart_default:
  assumes "part \<notin> Some ` set TREE_PARTS"
  shows "createGeometry_treePart M part = SphereGeometry (Some (num M 0.25)) 16 16"
  using assms by (simp add: createGeometry_treePart_def TREE_PARTS_def MESSAGE_CONFIG_def Let_def)

text \<open>
  C10. In the emotion variant, \<open>addNode\<close> completes without an error for every message
  whose \<open>emotion\<close> is one of the seven keys of \<open>EMOTION_CONFIG\<close>: joy, love, sadness,
  anger, confusion, secret, excitement. The precondition is needed: when
  \<open>EMOTION_CONFIG[emotion]\<close> is \<open>undefined\<close> and the id has no node yet, \<open>addNode\<close> ends
  in the \<open>TypeError\<close> of reading \<open>config.geometry\<close>. The inscription variant has no such
  precondition: for a tree part outside \<open>TREE_PARTS\<close> its \<open>createGeometry\<close> returns the
  default sphere.
\<close>

theorem addNode_emotion_completes:
  "(emotion msg \<in> Some ` set (map fst EMOTION_CONFIG) \<longrightarrow>
      (\<exists>r. fst (addNode_emotion M msg st) = Inr r))
   \<and> (EMOTION_CONFIG_get (emotion msg) = Undefined \<and> meshes st (message_id msg) = None \<longrightarrow>
        fst (addNode_emotion M msg st) = Inl TypeError)
   \<and> map fst EMOTION_CONFIG =
        [js ''joy'', js ''love'', js ''sadness'', js ''anger'', js ''confusion'', js ''secret'',
         js ''excitement'']
   \<and> (part \<notin> Some ` set TREE_PARTS \<longrightarrow>
        createGeometry_treePart M part = SphereGeometry (Some (num M 0.25)) 16 16)"
proof (intro conjI impI)
  assume "emotion msg \<in> Some ` set (map fst EMOTION_CONFIG)"
  then have ok: "EMOTION_CONFIG_get (emotion msg) \<noteq> Undefined"
    using EMOTION_CONFIG_get_keys by (auto simp: EMOTION_CONFIG_keys)
  show "\<exists>r. fst (addNode_emotion M msg st) = Inr r"
  proof (cases "meshes st (message_id msg) = None")
    case True
    from addNode_emotion_absent [OF True ok, of M] show ?thesis
      by blast
  next
    case False
    then show ?thesis
      by (simp add: addNode_emotion_present)
  qed
next
  assume "EMOTION_CONFIG_get (emotion msg) = Undefined \<and> meshes st (message_id msg) = None"
  then show "fst (addNode_emotion M msg st) = Inl TypeError"
    using addNode_emotion_undefined [of st msg M] by simp
next
  show "map fst EMOTION_CONFIG =
        [js ''joy'', js ''love'', js ''sadness'', js ''anger'', js ''confusion'', js ''secret'',
         js ''excitement'']"
    by (rule EMOTION_CONFIG_keys)
next
  assume "part \<notin> Some ` set TREE_PARTS"
  then show "createGeometry_treePart M part = SphereGeometry (Some (num M 0.25)) 16 16"
    by (rule createGeometry_treePart_default)
qed

text \<open>
  Instances of C10: the emotion \<open>joy\<close>, the emotion \<open>fear\<close>, and the tree part
  \<open>twig\<close>.
\<close>

theorem addNode_emotion_completes_witness:
  "emotion alice_m1 \<in> Some ` set (map fst EMOTION_CONFIG)
   \<and> (\<exists>r. fst (addNode_emotion exact_engine alice_m1 (new_NodeSystem exact_engine)) = Inr r)
   \<and> EMOTION_CONFIG_get (emotion bob_m1) = Undefined
   \<and> meshes (new_NodeSystem exact_engine) (message_id bob_m1) = None
   \<and> fst (addNode_emotion exact_engine bob_m1 (new_NodeSystem exact_engine)) = Inl TypeError
   \<and> Some (js ''twig'') \<notin> Some ` set TREE_PARTS
   \<and> createGeometry_treePart exact_engine (Some (js ''twig'')) =
       SphereGeometry (Some (num exact_engine 0.25)) 16 16"
proof -
  have a: "emotion alice_m1 \<in> Some ` set (map fst EMOTION_CONFIG)"
    by (simp add: example_emotions EMOTION_CONFIG_keys)
  have b: "EMOTION_CONFIG_get (emotion bob_m1) = Undefined"
    by (simp add: example_emotions EMOTION_CONFIG_get_fear)
  have c: "meshes (new_NodeSystem exact_engine) (message_id bob_m1) = None"
    by (rule meshes_new)
  have d: "Some (js ''twig'') \<notin> Some ` set TREE_PARTS"
    by (simp add: TREE_PARTS_def js_def)
  from addNode_emotion_completes [of alice_m1 exact_engine "new_NodeSystem exact_engine"] a
  have 1: "\<exists>r. fst (addNode_emotion exact_engine alice_m1 (new_NodeSystem exact_engine)) = Inr r"
    by blast
  from addNode_emotion_completes [of bob_m1 exact_engine "new_NodeSystem exact_engine"] b c
  have 2: "fst (addNode_emotion exact_engine bob_m1 (new_NodeSystem exact_engine)) = Inl TypeError"
    by blast
  from addNode_emotion_completes [of _ exact_engine _ "Some (js ''twig'')"] d
  have 3: "createGeometry_treePart exact_engine (Some (js ''twig'')) =
       SphereGeometry (Some (num exact_engine 0.25)) 16 16"
    by blast
  from a b c d 1 2 3 show ?thesis
    by (intro conjI)
qed

end
